theory Spec2Isabelle
  imports Main
begin

section \<open>Python values, errors and the document tree\<close>

text \<open>
  The four filters are Python programs over the document tree of the host library.
  Values read from the document metadata are dynamically typed: a string, a boolean,
  a list or a dictionary (\<open>PNone\<close> is Python's \<open>None\<close>, the default handed to a
  metadata lookup). Dictionaries are finite maps from strings.
\<close>

datatype pyval =
    PNone
  | PStr string
  | PBool bool
  | PList "pyval list"
  | PDict "string \<Rightarrow> pyval option"

text \<open>Every exception a filter can raise to its caller is a value of this type.\<close>

datatype error = UnboundLocalError | TypeError | IndexError | KeyError | ValueError | AttributeError

text \<open>
  The nodes of the tree, one constructor for each kind the filters can tell apart.
  Inline nodes: \<open>RawInline text format\<close>; \<open>Span identifier classes attributes content\<close>
  and \<open>Link content url identifier classes attributes\<close>, the inlines that hold inlines;
  \<open>Note content\<close>, the footnote, an inline that holds blocks.
  Block nodes: \<open>Para\<close> and \<open>Plain\<close> hold inlines; \<open>RawBlock text format\<close>;
  \<open>Div identifier classes attributes content\<close>; \<open>BlockQuote\<close> stands for the block
  containers other than \<open>Div\<close>.
\<close>

datatype inline =
    Str string
  | Space
  | RawInline string string
  | Span string "string list" "string \<Rightarrow> string option" "inline list"
  | Link "inline list" string string "string list" "string \<Rightarrow> string option"
  | Note "block list"
and block =
    Para "inline list"
  | Plain "inline list"
  | RawBlock string string
  | HorizontalRule
  | BlockQuote "block list"
  | Div string "string list" "string \<Rightarrow> string option" "block list"

text \<open>An action is called on every node of the tree, block or inline.\<close>

datatype elem = Block block | Inline inline

text \<open>
  What an action hands back to the traversal: \<open>RNone\<close> is a plain \<open>return\<close>
  (the node stays), \<open>RElem\<close> one replacement node, \<open>RList\<close> a sequence of them.
\<close>

datatype ret = RNone | RElem elem | RList "elem list"

text \<open>The document as the filters see it: the target format and the metadata.\<close>

record doc =
  format :: string
  metadata :: "string \<Rightarrow> pyval option"

definition get_metadata :: "doc \<Rightarrow> string \<Rightarrow> pyval \<Rightarrow> pyval" where
  "get_metadata d key dflt = (case metadata d key of None \<Rightarrow> dflt | Some v \<Rightarrow> v)"

section \<open>Strings and dictionaries of Python\<close>

text \<open>The backslash that opens a LaTeX command, as a one-character string.\<close>

definition backslash :: string where
  "backslash = [CHR 0x5C]"

text \<open>\<open>s.startswith(p)\<close>, \<open>s.endswith(p)\<close> and \<open>s.removeprefix(p)\<close>.\<close>

definition startswith :: "string \<Rightarrow> string \<Rightarrow> bool" where
  "startswith s p = (take (length p) s = p)"

definition endswith :: "string \<Rightarrow> string \<Rightarrow> bool" where
  "endswith s p = (length p \<le> length s \<and> drop (length s - length p) s = p)"

definition removeprefix :: "string \<Rightarrow> string \<Rightarrow> string" where
  "removeprefix s p = (if startswith s p then drop (length p) s else s)"

text \<open>
  \<open>s.split(sep, 1)[0]\<close> for a non-empty separator: the part of \<open>s\<close> before the
  leftmost occurrence of \<open>sep\<close>, and the whole of \<open>s\<close> when \<open>sep\<close> does not occur.
\<close>

fun split_first :: "string \<Rightarrow> string \<Rightarrow> string" where
  "split_first [] sep = []"
| "split_first (c # cs) sep =
     (if startswith (c # cs) sep then [] else c # split_first cs sep)"

text \<open>
  The dictionary display \<open>{**defaults, **override}\<close>: a new dictionary with the
  entries of both, the entry of \<open>override\<close> standing where both have the key.
\<close>

definition dict_merge :: "(string \<Rightarrow> 'v option) \<Rightarrow> (string \<Rightarrow> 'v option) \<Rightarrow> (string \<Rightarrow> 'v option)" where
  "dict_merge defaults override = (\<lambda>k. case override k of Some v \<Rightarrow> Some v | None \<Rightarrow> defaults k)"

text \<open>The paragraph break, two line feeds.\<close>

definition paragraph_break :: string where
  "paragraph_break = [CHR 0x0A, CHR 0x0A]"

text \<open>
  The flattened text of a node is computed by the host library (\<open>stringify\<close>); the
  actions take it as a parameter \<open>sf\<close>. \<open>flatten\<close> is that function on the nodes of
  this tree: it goes through the node and all its descendants, the children of a node
  in order and before the node itself, and joins what each one gives: its text for a
  node that has one (\<open>Str\<close>, \<open>RawInline\<close>, \<open>RawBlock\<close>), one blank for a \<open>Space\<close>,
  the paragraph break for a \<open>Para\<close>, and nothing for any other node. The text of a
  \<open>Para\<close> therefore ends in the paragraph break and is never empty.
\<close>

fun flatten_inline :: "inline \<Rightarrow> string"
  and flatten_inlines :: "inline list \<Rightarrow> string"
  and flatten_block :: "block \<Rightarrow> string"
  and flatten_blocks :: "block list \<Rightarrow> string" where
  "flatten_inline (Str s) = s"
| "flatten_inline Space = '' ''"
| "flatten_inline (RawInline t f) = t"
| "flatten_inline (Span i cs a xs) = flatten_inlines xs"
| "flatten_inline (Link xs u i cs a) = flatten_inlines xs"
| "flatten_inline (Note bs) = flatten_blocks bs"
| "flatten_inlines [] = []"
| "flatten_inlines (x # xs) = flatten_inline x @ flatten_inlines xs"
| "flatten_block (Para xs) = flatten_inlines xs @ paragraph_break"
| "flatten_block (Plain xs) = flatten_inlines xs"
| "flatten_block (RawBlock t f) = t"
| "flatten_block HorizontalRule = []"
| "flatten_block (BlockQuote bs) = flatten_blocks bs"
| "flatten_block (Div i cs a bs) = flatten_blocks bs"
| "flatten_blocks [] = []"
| "flatten_blocks (b # bs) = flatten_block b @ flatten_blocks bs"

fun flatten :: "elem \<Rightarrow> string" where
  "flatten (Inline x) = flatten_inline x"
| "flatten (Block b) = flatten_block b"

section \<open>adoc-admonitions.py\<close>

definition adoc_FILTERNAME :: string where
  "adoc_FILTERNAME = ''adoc-admonition''"

definition ADMONITIONS :: "string \<Rightarrow> pyval option" where
  "ADMONITIONS = Map.empty(
     ''NOTE'' \<mapsto> PStr ''note'',
     ''TIP'' \<mapsto> PStr ''tip'',
     ''ERROR'' \<mapsto> PStr ''error'',
     ''CODE'' \<mapsto> PStr ''term'',
     ''WARNING'' \<mapsto> PStr ''warn'',
     ''QUOTE'' \<mapsto> PStr ''quote'')"

text \<open>
  The module globals the action touches: \<open>META\<close> is \<open>None\<close> while the name is not
  in \<open>globals()\<close>.
\<close>

record adoc_globals =
  adoc_META :: "pyval option"

definition adoc_init :: adoc_globals where
  "adoc_init = \<lparr>adoc_META = None\<rparr>"

text \<open>
  Lines 106 to 110. \<open>admonitions\<close> is a local variable of \<open>action\<close>: it is bound only
  when the branch runs, so the result carries \<open>Some\<close> mapping then and \<open>None\<close>
  (unbound) otherwise. Unpacking a value that is not a dictionary raises \<open>TypeError\<close>
  before the global is stored.
\<close>

definition adoc_load :: "doc \<Rightarrow> adoc_globals \<Rightarrow> error + ((string \<Rightarrow> pyval option) option \<times> adoc_globals)" where
  "adoc_load d g =
     (if adoc_META g = None then
        (let META = get_metadata d adoc_FILTERNAME (PDict Map.empty) in
         case META of
           PDict m \<Rightarrow> Inr (Some (dict_merge ADMONITIONS m), g\<lparr>adoc_META := Some META\<rparr>)
         | _ \<Rightarrow> Inl TypeError)
      else Inr (None, g))"

text \<open>
  Lines 125 to 136: the replacement built for a class name. Concatenating a value that
  is not a string, or using it as a class, raises \<open>TypeError\<close>.
\<close>

definition adoc_build :: "doc \<Rightarrow> string \<Rightarrow> string \<Rightarrow> pyval \<Rightarrow> error + ret" where
  "adoc_build d text first_word classname =
     (let newtext = removeprefix text (first_word @ '': '') in
      case classname of
        PStr c \<Rightarrow>
          (if format d \<in> set [''latex'', ''beamer'']
           then Inr (RList [Block (RawBlock (backslash @ ''begin{'' @ c @ ''}'') ''tex''),
                            Block (Para [Str newtext]),
                            Block (RawBlock (backslash @ ''end{'' @ c @ ''}'') ''tex'')])
           else Inr (RElem (Block (Div [] [c] Map.empty [Para [Str newtext]]))))
      | _ \<Rightarrow> Inl TypeError)"

definition adoc_action :: "(elem \<Rightarrow> string) \<Rightarrow> elem \<Rightarrow> doc \<Rightarrow> adoc_globals \<Rightarrow> error + (ret \<times> adoc_globals)" where
  "adoc_action sf el d g =
     (case el of
        Block (Para xs) \<Rightarrow>
          (case adoc_load d g of
             Inl e \<Rightarrow> Inl e
           | Inr (admonitions, g') \<Rightarrow>
               (let text = sf el in
                if length text = 0 then Inr (RNone, g')
                else
                  (let first_word = split_first text '': '' in
                   case admonitions of
                     None \<Rightarrow> Inl UnboundLocalError
                   | Some adm \<Rightarrow>
                       (case adm first_word of
                          None \<Rightarrow> Inr (RNone, g')
                        | Some classname \<Rightarrow>
                            (case adoc_build d text first_word classname of
                               Inl e \<Rightarrow> Inl e
                             | Inr r \<Rightarrow> Inr (r, g'))))))
      | _ \<Rightarrow> Inr (RNone, g))"

text \<open>
  The traversal calls the action on one node after another with the same globals;
  an exception ends the run.
\<close>

fun adoc_visit :: "(elem \<Rightarrow> string) \<Rightarrow> doc \<Rightarrow> adoc_globals \<Rightarrow> elem list \<Rightarrow> error + (ret list \<times> adoc_globals)" where
  "adoc_visit sf d g [] = Inr ([], g)"
| "adoc_visit sf d g (el # els) =
     (case adoc_action sf el d g of
        Inl e \<Rightarrow> Inl e
      | Inr (r, g') \<Rightarrow>
          (case adoc_visit sf d g' els of
             Inl e \<Rightarrow> Inl e
           | Inr (rs, g'') \<Rightarrow> Inr (r # rs, g'')))"

section \<open>beamer-twocol.py\<close>

definition DIVNAME :: string where
  "DIVNAME = ''twocol''"

text \<open>
  \<open>attr.split(",", maxsplit=n)\<close>: the pieces of \<open>attr\<close> between commas, cutting at
  the first \<open>n\<close> commas at most; the rest of the string is the last piece.
\<close>

fun split_max :: "char \<Rightarrow> nat \<Rightarrow> string \<Rightarrow> string list" where
  "split_max sep n [] = [[]]"
| "split_max sep 0 (c # cs) = [c # cs]"
| "split_max sep (Suc n) (c # cs) =
     (if c = sep then [] # split_max sep n cs
      else (case split_max sep (Suc n) cs of
              p # ps \<Rightarrow> (c # p) # ps
            | [] \<Rightarrow> [[c]]))"

text \<open>The two dictionaries \<open>shared_attr['left']\<close> and \<open>shared_attr['right']\<close>.\<close>

record shared_attributes =
  left :: "string \<Rightarrow> string option"
  right :: "string \<Rightarrow> string option"

text \<open>
  Lines 137 to 150. \<open>attrs[0]\<close> always exists; \<open>attrs[split_pos]\<close> is \<open>attrs[1]\<close>
  when the split gave more than one piece and \<open>attrs[0]\<close> otherwise.
\<close>

definition split_attributes :: "string \<Rightarrow> string \<Rightarrow> shared_attributes \<Rightarrow> shared_attributes" where
  "split_attributes attr attr_name shared_attr =
     (let attrs = split_max CHR '','' 2 attr;
          shared_attr = shared_attr\<lparr>left := (left shared_attr)(attr_name \<mapsto> attrs ! 0)\<rparr>;
          split_pos = (if length attrs > 1 then 1 else 0)
      in shared_attr\<lparr>right := (right shared_attr)(attr_name \<mapsto> attrs ! split_pos)\<rparr>)"

text \<open>
  Lines 122 to 135. The loop runs over \<open>["align", "width"]\<close>; it also deletes the two
  keys from the attributes of the node, so the function returns the attributes left.
\<close>

fun process_loop :: "string list \<Rightarrow> (string \<Rightarrow> string option) \<Rightarrow> shared_attributes
    \<Rightarrow> shared_attributes \<times> (string \<Rightarrow> string option)" where
  "process_loop [] attributes shared = (shared, attributes)"
| "process_loop (i # is) attributes shared =
     (case attributes i of
        None \<Rightarrow> process_loop is attributes shared
      | Some attr \<Rightarrow> process_loop is (attributes(i := None)) (split_attributes attr i shared))"

definition process_attributes :: "(string \<Rightarrow> string option)
    \<Rightarrow> shared_attributes \<times> (string \<Rightarrow> string option)" where
  "process_attributes attributes =
     process_loop [''align'', ''width''] attributes \<lparr>left = Map.empty, right = Map.empty\<rparr>"

text \<open>Line 80: the positions of the \<open>HorizontalRule\<close> children.\<close>

definition ruler_positions :: "block list \<Rightarrow> nat list" where
  "ruler_positions content = [i \<leftarrow> [0 ..< length content]. content ! i = HorizontalRule]"

text \<open>
  Lines 57 to 116. The test of the format at line 69 ends in \<open>pass\<close> and changes
  nothing, so the format does not appear below. \<open>elem.classes[0]\<close> raises
  \<open>IndexError\<close> on an empty class list. The \<open>else\<close> branch of line 104 hands a list
  to the constructor of \<open>Div\<close>, which raises \<open>TypeError\<close>.
\<close>

definition twocol_action :: "elem \<Rightarrow> doc \<Rightarrow> error + ret" where
  "twocol_action el d =
     (case el of
        Block (Div ident classes attributes content) \<Rightarrow>
          (case classes of
             [] \<Rightarrow> Inl IndexError
           | c0 # crest \<Rightarrow>
               if c0 \<noteq> DIVNAME then Inr RNone
               else
                 (case ruler_positions content of
                    [] \<Rightarrow> Inr RNone
                  | ruler_pos # others \<Rightarrow>
                      (let num_elements = length content;
                           (cols_attributes, attributes') = process_attributes attributes;
                           beforeContent = map (\<lambda>i. content ! i) [0 ..< ruler_pos];
                           beforeDiv = Div [] [''column'']
                                         (dict_merge attributes' (left cols_attributes)) beforeContent
                       in if ruler_pos < num_elements then
                            (let afterContent = map (\<lambda>i. content ! i) [ruler_pos + 1 ..< num_elements];
                                 afterDiv = Div [] [''column'']
                                              (dict_merge attributes' (right cols_attributes)) afterContent
                             in Inr (RElem (Block (Div [] [''columns''] Map.empty [beforeDiv, afterDiv]))))
                          else Inl TypeError)))
      | _ \<Rightarrow> Inr RNone)"

section \<open>divs-to-latex.py\<close>

text \<open>The truth value Python gives a value in \<open>if not META\<close> or \<open>if title\<close>.\<close>

fun truthy :: "pyval \<Rightarrow> bool" where
  "truthy PNone = False"
| "truthy (PStr s) = (s \<noteq> [])"
| "truthy (PBool b) = b"
| "truthy (PList l) = (l \<noteq> [])"
| "truthy (PDict m) = (m \<noteq> Map.empty)"

text \<open>\<open>sub in s\<close> on strings: \<open>sub\<close> occurs in \<open>s\<close>.\<close>

fun contains :: "string \<Rightarrow> string \<Rightarrow> bool" where
  "contains [] sub = (sub = [])"
| "contains (c # cs) sub = (startswith (c # cs) sub \<or> contains cs sub)"

text \<open>
  \<open>div in META\<close> followed by \<open>META[div]\<close> (lines 73 to 76) for a class name \<open>dv\<close> (the variable \<open>div\<close>):
  \<open>None\<close> when the membership test fails, the environment when \<open>META\<close> is a
  dictionary with the key, and \<open>TypeError\<close> when the test succeeds on a string or
  a list (which a string cannot index) or is applied to a boolean.
\<close>

fun env_lookup :: "pyval \<Rightarrow> string \<Rightarrow> error + pyval option" where
  "env_lookup (PDict m) dv = Inr (m dv)"
| "env_lookup (PStr s) dv = (if contains s dv then Inl TypeError else Inr None)"
| "env_lookup (PList l) dv = (if PStr dv \<in> set l then Inl TypeError else Inr None)"
| "env_lookup (PBool b) dv = Inl TypeError"
| "env_lookup PNone dv = Inl TypeError"

text \<open>
  Lines 117 to 140, called on every node of the walk. The second argument is the
  attribute \<open>doc.div\<close>: \<open>None\<close> when the document has no such attribute, the triple
  \<open>(env, title, label)\<close> otherwise. Only a \<open>Para\<close> is touched.
\<close>

fun add_before_first_paragraph :: "elem \<Rightarrow> (pyval \<times> string \<times> string) option
    \<Rightarrow> error + (elem \<times> (pyval \<times> string \<times> string) option)" where
  "add_before_first_paragraph el None = Inr (el, None)"
| "add_before_first_paragraph (Block (Para xs)) (Some (env, title, label)) =
     (case env of
        PStr e \<Rightarrow>
          Inr (Block (Para (RawInline (backslash @ ''begin{'' @ e @ ''}'' @ title @ label) ''tex'' # xs)),
               None)
      | _ \<Rightarrow> Inl TypeError)"
| "add_before_first_paragraph el (Some h) = Inr (el, Some h)"

text \<open>
  The function applied to a block, respectively an inline, in its place in the list
  of its parent; a list of blocks takes no inline and a list of inlines no block.
\<close>

definition visit_block :: "block \<Rightarrow> (pyval \<times> string \<times> string) option
    \<Rightarrow> error + (block \<times> (pyval \<times> string \<times> string) option)" where
  "visit_block b h =
     (case add_before_first_paragraph (Block b) h of
        Inl e \<Rightarrow> Inl e
      | Inr (Block b', h') \<Rightarrow> Inr (b', h')
      | Inr (Inline x, h') \<Rightarrow> Inl TypeError)"

definition visit_inline :: "inline \<Rightarrow> (pyval \<times> string \<times> string) option
    \<Rightarrow> error + (inline \<times> (pyval \<times> string \<times> string) option)" where
  "visit_inline x h =
     (case add_before_first_paragraph (Inline x) h of
        Inl e \<Rightarrow> Inl e
      | Inr (Inline x', h') \<Rightarrow> Inr (x', h')
      | Inr (Block b, h') \<Rightarrow> Inl TypeError)"

text \<open>
  \<open>elem.walk(add_before_first_paragraph, doc)\<close>: the walk of the host library goes
  through the children of a node in order, each with its own descendants first, and
  calls the function on the node itself after them; the inlines of a paragraph and
  the blocks of a footnote are children like any other, so a paragraph inside a
  footnote is visited before the paragraph that holds the footnote. The document,
  and with it \<open>doc.div\<close>, is threaded through the calls.
\<close>

fun walk_inline :: "inline \<Rightarrow> (pyval \<times> string \<times> string) option
      \<Rightarrow> error + (inline \<times> (pyval \<times> string \<times> string) option)"
  and walk_inlines :: "inline list \<Rightarrow> (pyval \<times> string \<times> string) option
      \<Rightarrow> error + (inline list \<times> (pyval \<times> string \<times> string) option)"
  and walk :: "block \<Rightarrow> (pyval \<times> string \<times> string) option
      \<Rightarrow> error + (block \<times> (pyval \<times> string \<times> string) option)"
  and walk_list :: "block list \<Rightarrow> (pyval \<times> string \<times> string) option
      \<Rightarrow> error + (block list \<times> (pyval \<times> string \<times> string) option)" where
  "walk_inline (Str s) h = visit_inline (Str s) h"
| "walk_inline Space h = visit_inline Space h"
| "walk_inline (RawInline t f) h = visit_inline (RawInline t f) h"
| "walk_inline (Span i cs a xs) h =
     (case walk_inlines xs h of
        Inl e \<Rightarrow> Inl e
      | Inr (xs', h') \<Rightarrow> visit_inline (Span i cs a xs') h')"
| "walk_inline (Link xs u i cs a) h =
     (case walk_inlines xs h of
        Inl e \<Rightarrow> Inl e
      | Inr (xs', h') \<Rightarrow> visit_inline (Link xs' u i cs a) h')"
| "walk_inline (Note bs) h =
     (case walk_list bs h of
        Inl e \<Rightarrow> Inl e
      | Inr (bs', h') \<Rightarrow> visit_inline (Note bs') h')"
| "walk_inlines [] h = Inr ([], h)"
| "walk_inlines (x # xs) h =
     (case walk_inline x h of
        Inl e \<Rightarrow> Inl e
      | Inr (x', h') \<Rightarrow>
          (case walk_inlines xs h' of
             Inl e \<Rightarrow> Inl e
           | Inr (xs', h'') \<Rightarrow> Inr (x' # xs', h'')))"
| "walk (Para xs) h =
     (case walk_inlines xs h of
        Inl e \<Rightarrow> Inl e
      | Inr (xs', h') \<Rightarrow> visit_block (Para xs') h')"
| "walk (Plain xs) h =
     (case walk_inlines xs h of
        Inl e \<Rightarrow> Inl e
      | Inr (xs', h') \<Rightarrow> visit_block (Plain xs') h')"
| "walk (RawBlock t f) h = visit_block (RawBlock t f) h"
| "walk HorizontalRule h = visit_block HorizontalRule h"
| "walk (BlockQuote bs) h =
     (case walk_list bs h of
        Inl e \<Rightarrow> Inl e
      | Inr (bs', h') \<Rightarrow> visit_block (BlockQuote bs') h')"
| "walk (Div i cs a bs) h =
     (case walk_list bs h of
        Inl e \<Rightarrow> Inl e
      | Inr (bs', h') \<Rightarrow> visit_block (Div i cs a bs') h')"
| "walk_list [] h = Inr ([], h)"
| "walk_list (b # bs) h =
     (case walk b h of
        Inl e \<Rightarrow> Inl e
      | Inr (b', h') \<Rightarrow>
          (case walk_list bs h' of
             Inl e \<Rightarrow> Inl e
           | Inr (bs', h'') \<Rightarrow> Inr (b' # bs', h'')))"

text \<open>
  Lines 43 to 101. The test of the format at line 51 ends in \<open>pass\<close> and changes
  nothing. \<open>META\<close> is assigned in the function and so is local to it: reading it
  raises \<open>UnboundLocalError\<close>, a \<open>NameError\<close>, and the handler reads the metadata on
  every call. The action returns \<open>None\<close> and changes the node in place: the result is
  the return value, the node as it is afterwards, and \<open>doc.div\<close> afterwards.
\<close>

definition env_action :: "elem \<Rightarrow> doc \<Rightarrow> (pyval \<times> string \<times> string) option
    \<Rightarrow> error + (ret \<times> elem \<times> (pyval \<times> string \<times> string) option)" where
  "env_action el d h =
     (case el of
        Block (Div ident classes attributes content) \<Rightarrow>
          (let META = get_metadata d ''div-env'' PNone in
           if \<not> truthy META then Inr (RNone, el, h)
           else
             (case classes of
                [] \<Rightarrow> Inr (RNone, el, h)
              | dv # crest \<Rightarrow>
                  (case env_lookup META dv of
                     Inl e \<Rightarrow> Inl e
                   | Inr None \<Rightarrow> Inr (RNone, el, h)
                   | Inr (Some env) \<Rightarrow>
                       (let label = (if ident \<noteq> [] then backslash @ ''label{'' @ ident @ ''}'' else []);
                            title = (case attributes ''title'' of
                                       Some t \<Rightarrow> ''['' @ t @ '']''
                                     | None \<Rightarrow> [])
                        in case walk (Div ident classes attributes content) (Some (env, title, label)) of
                             Inl e \<Rightarrow> Inl e
                           | Inr (el', h') \<Rightarrow>
                               (case env of
                                  PStr e \<Rightarrow>
                                    (let after = Plain [RawInline (backslash @ ''end{'' @ e @ ''}'') ''tex'']
                                     in case el' of
                                          Div i' cs' a' content' \<Rightarrow>
                                            Inr (RNone, Block (Div i' cs' a' (content' @ [after])), h')
                                        | _ \<Rightarrow> Inr (RNone, Block el', h'))
                                | _ \<Rightarrow> Inl TypeError)))))
      | _ \<Rightarrow> Inr (RNone, el, h))"

section \<open>super-links.py\<close>

definition links_FILTERNAME :: string where
  "links_FILTERNAME = ''super-links''"

definition IDNAME :: string where
  "IDNAME = ''l''"

definition LINKS :: "string \<Rightarrow> pyval option" where
  "LINKS = Map.empty(
     ''wiki'' \<mapsto> PDict (Map.empty(
        ''url'' \<mapsto> PStr ''https://en.wikipedia.org/wiki'',
        ''encode'' \<mapsto> PBool True,
        ''before'' \<mapsto> PStr [],
        ''after'' \<mapsto> PStr [])),
     ''pubmed'' \<mapsto> PDict (Map.empty(
        ''url'' \<mapsto> PStr ''https://pubmed.ncbi.nlm.nih.gov/'',
        ''before'' \<mapsto> PStr ''pubmed:'')),
     ''doi'' \<mapsto> PDict (Map.empty(
        ''url'' \<mapsto> PStr ''https://doi.org/'',
        ''before'' \<mapsto> PStr ''DOI:'')),
     ''github'' \<mapsto> PStr ''https://github.com/'',
     ''youtube'' \<mapsto> PStr ''https://www.youtube.com/'')"

text \<open>
  \<open>urllib.parse.quote_plus\<close> of the standard library, on the bytes of the text:
  letters, digits and \<open>_.-~\<close> stand as they are, a blank becomes \<open>+\<close>, and every
  other byte becomes \<open>%\<close> and its two upper-case hexadecimal digits.
\<close>

definition always_safe :: "char \<Rightarrow> bool" where
  "always_safe c = (c \<in> set (''ABCDEFGHIJKLMNOPQRSTUVWXYZ'' @ ''abcdefghijklmnopqrstuvwxyz''
                                @ ''0123456789'' @ ''_.-~''))"

definition hex_digit :: "nat \<Rightarrow> char" where
  "hex_digit n = ''0123456789ABCDEF'' ! (n mod 16)"

definition quote_char :: "char \<Rightarrow> string" where
  "quote_char c =
     (if c = CHR '' '' then ''+''
      else if always_safe c then [c]
      else [CHR ''%'', hex_digit (of_char c div 16), hex_digit (of_char c mod 16)])"

definition quote_plus :: "string \<Rightarrow> string" where
  "quote_plus s = concat (map quote_char s)"

text \<open>
  \<open>get_option(options, tag)\<close> of the host library: the attribute when the node has it,
  the words for true and false read as booleans, and \<open>ValueError\<close> when it is absent.
\<close>

definition get_option :: "(string \<Rightarrow> string option) \<Rightarrow> string \<Rightarrow> error + pyval" where
  "get_option options local_tag =
     (case options local_tag of
        None \<Rightarrow> Inl ValueError
      | Some v \<Rightarrow>
          (if v \<in> set [''true'', ''True''] then Inr (PBool True)
           else if v \<in> set [''false'', ''False''] then Inr (PBool False)
           else Inr (PStr v)))"

text \<open>\<open>a + b\<close> where \<open>b\<close> is a string: \<open>TypeError\<close> unless \<open>a\<close> is a string too.\<close>

definition str_of :: "pyval \<Rightarrow> error + string" where
  "str_of v = (case v of PStr s \<Rightarrow> Inr s | _ \<Rightarrow> Inl TypeError)"

text \<open>\<open>d.get(key, default)\<close> on an attribute dictionary, the result a Python value.\<close>

definition attr_get :: "(string \<Rightarrow> string option) \<Rightarrow> string \<Rightarrow> pyval \<Rightarrow> pyval" where
  "attr_get attributes key dflt = (case attributes key of Some v \<Rightarrow> PStr v | None \<Rightarrow> dflt)"

definition dict_get :: "(string \<Rightarrow> pyval option) \<Rightarrow> string \<Rightarrow> pyval \<Rightarrow> pyval" where
  "dict_get m key dflt = (case m key of Some v \<Rightarrow> v | None \<Rightarrow> dflt)"

text \<open>
  Lines 250 to 267, the branch of a dictionary entry. \<open>url_data['url']\<close> raises
  \<open>KeyError\<close> without the key, and \<open>endswith\<close> exists on strings only.
\<close>

definition link_of_dict :: "(string \<Rightarrow> pyval option) \<Rightarrow> (string \<Rightarrow> string option) \<Rightarrow> string
    \<Rightarrow> error + (string \<times> string)" where
  "link_of_dict url_data attributes link_text =
     (case url_data ''url'' of
        None \<Rightarrow> Inl KeyError
      | Some (PStr u) \<Rightarrow>
          (let slash = (if endswith u ''/'' then [] else ''/'');
               url = (if truthy (dict_get url_data ''encode'' PNone)
                      then u @ slash @ quote_plus link_text
                      else u @ slash @ link_text);
               title = attr_get attributes ''title'' PNone;
               link_text = (case title of PStr t \<Rightarrow> (if t \<noteq> [] then t else link_text)
                            | _ \<Rightarrow> link_text);
               prepend = dict_get url_data ''before'' (PStr []);
               prepend = attr_get attributes ''before'' prepend
           in case str_of prepend of
                Inl e \<Rightarrow> Inl e
              | Inr pre \<Rightarrow>
                  (let link_text = pre @ link_text;
                       append = dict_get url_data ''after'' (PStr []);
                       append = attr_get attributes ''after'' append
                   in case str_of append of
                        Inl e \<Rightarrow> Inl e
                      | Inr app \<Rightarrow> Inr (link_text @ app, url)))
      | Some _ \<Rightarrow> Inl AttributeError)"

text \<open>\<open>elem.attributes\<close> of a node that carries attributes.\<close>

fun elem_attributes :: "elem \<Rightarrow> (string \<Rightarrow> string option)" where
  "elem_attributes (Inline (Span i cs a xs)) = a"
| "elem_attributes (Inline (Link xs u i cs a)) = a"
| "elem_attributes (Block (Div i cs a bs)) = a"
| "elem_attributes el = Map.empty"

text \<open>
  Lines 231 to 269. \<open>links\<close> is the global \<open>LINKS\<close> at the time of the call, \<open>el\<close>
  the span. An entry that is neither a string nor a dictionary
  leaves the text as it is and the address empty.
\<close>

definition get_link_text :: "(elem \<Rightarrow> string) \<Rightarrow> (string \<Rightarrow> pyval option) \<Rightarrow> string \<Rightarrow> elem
    \<Rightarrow> error + (string \<times> string)" where
  "get_link_text sf links type el =
     (let link_text = sf el;
          attributes = elem_attributes el in
      case links type of
        None \<Rightarrow> Inl KeyError
      | Some (PStr url_data) \<Rightarrow>
          (let slash = (if endswith url_data ''/'' then [] else ''/'');
               url = url_data @ slash @ link_text;
               title = attr_get attributes ''title'' PNone;
               link_text = (case title of PStr t \<Rightarrow> (if t \<noteq> [] then t else link_text)
                            | _ \<Rightarrow> link_text)
           in Inr (link_text, url))
      | Some (PDict url_data) \<Rightarrow> link_of_dict url_data attributes link_text
      | Some _ \<Rightarrow> Inr (link_text, []))"

text \<open>
  The module globals of the filter: \<open>LINKS\<close>, replaced by the merged dictionary on
  the first span, and \<open>META\<close>, \<open>None\<close> while the name is not in \<open>globals()\<close>.
\<close>

record links_globals =
  links_LINKS :: "string \<Rightarrow> pyval option"
  links_META :: "pyval option"

definition links_init :: links_globals where
  "links_init = \<lparr>links_LINKS = LINKS, links_META = None\<rparr>"

text \<open>Lines 171 to 175.\<close>

definition links_load :: "doc \<Rightarrow> links_globals \<Rightarrow> error + links_globals" where
  "links_load d g =
     (if links_META g = None then
        (let META = get_metadata d links_FILTERNAME (PDict Map.empty) in
         case META of
           PDict m \<Rightarrow> Inr (g\<lparr>links_LINKS := dict_merge (links_LINKS g) m, links_META := Some META\<rparr>)
         | _ \<Rightarrow> Inl TypeError)
      else Inr g)"

text \<open>
  Lines 182 to 192: the \<open>type\<close> attribute when the span has one, else its first
  class, else the empty string.
\<close>

definition link_type :: "(string \<Rightarrow> string option) \<Rightarrow> string list \<Rightarrow> pyval" where
  "link_type attributes classes =
     (case get_option attributes ''type'' of
        Inr v \<Rightarrow> v
      | Inl e \<Rightarrow> (if length classes \<noteq> 0 then PStr (hd classes) else PStr []))"

text \<open>
  Lines 151 to 224. A boolean \<open>type\<close> is no key of \<open>LINKS\<close>, whose keys are strings.
\<close>

definition links_action :: "(elem \<Rightarrow> string) \<Rightarrow> elem \<Rightarrow> doc \<Rightarrow> links_globals
    \<Rightarrow> error + (ret \<times> links_globals)" where
  "links_action sf el d g =
     (case el of
        Inline (Span ident classes attributes content) \<Rightarrow>
          (case links_load d g of
             Inl e \<Rightarrow> Inl e
           | Inr g' \<Rightarrow>
               if ident \<noteq> IDNAME then Inr (RNone, g')
               else
                 (let type = link_type attributes classes
                  in case type of
                       PStr t \<Rightarrow>
                         (if links_LINKS g' t = None then Inr (RNone, g')
                          else
                            (case get_link_text sf (links_LINKS g') t el of
                               Inl e \<Rightarrow> Inl e
                             | Inr (text, url) \<Rightarrow>
                                 Inr (RElem (Inline (Link [Str text] url [] classes attributes)), g')))
                     | _ \<Rightarrow> Inr (RNone, g')))
      | _ \<Rightarrow> Inr (RNone, g))"

section \<open>Definitions in the words of the specification\<close>

text \<open>
  The attribute resolver as the specification states it: the attribute of the node
  when it is present and non-empty, the fallback otherwise.
\<close>

definition resolve :: "(string \<Rightarrow> string option) \<Rightarrow> string \<Rightarrow> string \<Rightarrow> string" where
  "resolve attrs name fallback =
     (case attrs name of Some v \<Rightarrow> (if v \<noteq> [] then v else fallback) | None \<Rightarrow> fallback)"



text \<open>
  The value of a hexadecimal digit, \<open>0\<close> to \<open>9\<close> and \<open>A\<close> to \<open>F\<close>, from its code.
\<close>

definition hex_value :: "char \<Rightarrow> nat" where
  "hex_value ch = (if of_char ch < (58::nat) then of_char ch - 48 else of_char ch - 55)"

section \<open>The configuration merger\<close>

lemma dict_merge_apply:
  "dict_merge a b k = (case b k of Some v \<Rightarrow> Some v | None \<Rightarrow> a k)"
  by (simp add: dict_merge_def)

lemma dict_merge_empty: "dict_merge a Map.empty = a"
  by (simp add: dict_merge_def)

lemma dict_merge_dom: "dom (dict_merge a b) = dom a \<union> dom b"
  by (auto simp: dict_merge_def dom_def split: option.splits)

text \<open>
  Both filters that merge do it on the first node that reaches the test, the built-in
  table first and the table of the metadata second.
\<close>

lemma adoc_load_first:
  "adoc_META g = None \<Longrightarrow> metadata d adoc_FILTERNAME = Some (PDict m) \<Longrightarrow>
   adoc_load d g = Inr (Some (dict_merge ADMONITIONS m), g\<lparr>adoc_META := Some (PDict m)\<rparr>)"
  by (simp add: adoc_load_def get_metadata_def)

lemma links_load_first:
  "links_META g = None \<Longrightarrow> metadata d links_FILTERNAME = Some (PDict m) \<Longrightarrow>
   links_load d g =
     Inr (g\<lparr>links_LINKS := dict_merge (links_LINKS g) m, links_META := Some (PDict m)\<rparr>)"
  by (simp add: links_load_def get_metadata_def)

text \<open>A document without the table leaves the built-in one as it is.\<close>

lemma links_load_no_table:
  "links_META g = None \<Longrightarrow> metadata d links_FILTERNAME = None \<Longrightarrow>
   links_load d g = Inr (g\<lparr>links_META := Some (PDict Map.empty)\<rparr>)"
  by (simp add: links_load_def get_metadata_def dict_merge_empty)

text \<open>
  Claim C9. For every pair of mappings the merge has the keys of both; a key of both
  carries the whole entry of the override, whatever the entry is (a string or a
  record), and a key of one mapping alone keeps its entry. This is what the two
  filters compute on their first node: in super-links.py the global \<open>LINKS\<close> after
  lines 171 to 175, for any table \<open>LINKS\<close> held before and any table \<open>override\<close> of the
  metadata, and in adoc-admonitions.py the local \<open>admonitions\<close> after lines 106 to
  110, from the built-in \<open>ADMONITIONS\<close> and the table of the metadata.
\<close>

theorem merge_override_wins:
  "dom (dict_merge defaults override) = dom defaults \<union> dom override
   \<and> (\<forall>K. K \<in> dom defaults \<and> K \<in> dom override \<longrightarrow> dict_merge defaults override K = override K)
   \<and> (\<forall>K. K \<in> dom override \<longrightarrow> dict_merge defaults override K = override K)
   \<and> (\<forall>K. K \<notin> dom override \<longrightarrow> dict_merge defaults override K = defaults K)
   \<and> (links_META g = None \<and> links_LINKS g = defaults
        \<and> metadata d links_FILTERNAME = Some (PDict override) \<longrightarrow>
        (\<exists>g'. links_load d g = Inr g'
           \<and> dom (links_LINKS g') = dom defaults \<union> dom override
           \<and> (\<forall>K. K \<in> dom override \<longrightarrow> links_LINKS g' K = override K)
           \<and> (\<forall>K. K \<notin> dom override \<longrightarrow> links_LINKS g' K = defaults K)))
   \<and> (adoc_META ag = None \<and> metadata d' adoc_FILTERNAME = Some (PDict override) \<longrightarrow>
        (\<exists>admonitions ag'. adoc_load d' ag = Inr (Some admonitions, ag')
           \<and> dom admonitions = dom ADMONITIONS \<union> dom override
           \<and> (\<forall>K. K \<in> dom override \<longrightarrow> admonitions K = override K)
           \<and> (\<forall>K. K \<notin> dom override \<longrightarrow> admonitions K = ADMONITIONS K)))"
proof -
  have m: "dom (dict_merge a b) = dom a \<union> dom b
      \<and> (\<forall>K. K \<in> dom b \<longrightarrow> dict_merge a b K = b K)
      \<and> (\<forall>K. K \<notin> dom b \<longrightarrow> dict_merge a b K = a K)" for a b :: "string \<Rightarrow> pyval option"
    by (auto simp: dict_merge_def dom_def split: option.splits)
  show ?thesis
    using m [of defaults override] m [of ADMONITIONS override]
    by (auto simp: links_load_first adoc_load_first)
qed

theorem merge_override_wins_witness:
  "links_META links_init = None \<and> links_LINKS links_init = LINKS
   \<and> (\<exists>g'. links_load
          \<lparr>format = ''html'',
             metadata = [''super-links'' \<mapsto>
               PDict [''wiki'' \<mapsto> PStr ''https://w.example/'', ''foo'' \<mapsto> PStr ''https://hello.co'']]\<rparr>
          links_init = Inr g'
        \<and> links_LINKS g' ''wiki'' = Some (PStr ''https://w.example/'')
        \<and> links_LINKS g' ''foo'' = Some (PStr ''https://hello.co'')
        \<and> links_LINKS g' ''github'' = Some (PStr ''https://github.com/''))
   \<and> adoc_META adoc_init = None
   \<and> (\<exists>admonitions ag'. adoc_load
          \<lparr>format = ''html'',
             metadata = [''adoc-admonition'' \<mapsto>
               PDict [''xxx'' \<mapsto> PStr ''admonitionnote'', ''TIP'' \<mapsto> PStr ''TIPADMONITION'']]\<rparr>
          adoc_init = Inr (Some admonitions, ag')
        \<and> admonitions ''TIP'' = Some (PStr ''TIPADMONITION'')
        \<and> admonitions ''xxx'' = Some (PStr ''admonitionnote'')
        \<and> admonitions ''NOTE'' = Some (PStr ''note''))"
proof -
  let ?ov = "[''wiki'' \<mapsto> PStr ''https://w.example/'', ''foo'' \<mapsto> PStr ''https://hello.co'']"
  let ?d = "\<lparr>format = ''html'', metadata = [''super-links'' \<mapsto> PDict ?ov]\<rparr>"
  let ?av = "[''xxx'' \<mapsto> PStr ''admonitionnote'', ''TIP'' \<mapsto> PStr ''TIPADMONITION'']"
  let ?ad = "\<lparr>format = ''html'', metadata = [''adoc-admonition'' \<mapsto> PDict ?av]\<rparr>"
  have hl: "links_META links_init = None \<and> links_LINKS links_init = LINKS
      \<and> metadata ?d links_FILTERNAME = Some (PDict ?ov)"
    by (simp add: links_init_def links_FILTERNAME_def)
  have ha: "adoc_META adoc_init = None \<and> metadata ?ad adoc_FILTERNAME = Some (PDict ?av)"
    by (simp add: adoc_init_def adoc_FILTERNAME_def)
  obtain g' where g: "links_load ?d links_init = Inr g'"
      "\<forall>K. K \<in> dom ?ov \<longrightarrow> links_LINKS g' K = ?ov K"
      "\<forall>K. K \<notin> dom ?ov \<longrightarrow> links_LINKS g' K = LINKS K"
    using merge_override_wins [of LINKS ?ov links_init ?d adoc_init ?ad,
        THEN conjunct2, THEN conjunct2, THEN conjunct2, THEN conjunct2, THEN conjunct1,
        THEN mp, OF hl]
    by (elim exE conjE)
  obtain admonitions ag' where a: "adoc_load ?ad adoc_init = Inr (Some admonitions, ag')"
      "\<forall>K. K \<in> dom ?av \<longrightarrow> admonitions K = ?av K"
      "\<forall>K. K \<notin> dom ?av \<longrightarrow> admonitions K = ADMONITIONS K"
    using merge_override_wins [of LINKS ?av links_init ?d adoc_init ?ad,
        THEN conjunct2, THEN conjunct2, THEN conjunct2, THEN conjunct2, THEN conjunct2,
        THEN mp, OF ha]
    by (elim exE conjE)
  have "links_LINKS g' ''wiki'' = Some (PStr ''https://w.example/'')"
    using g(2) by simp
  moreover have "links_LINKS g' ''foo'' = Some (PStr ''https://hello.co'')"
    using g(2) by simp
  moreover have "links_LINKS g' ''github'' = Some (PStr ''https://github.com/'')"
    using g(3) by (simp add: LINKS_def)
  moreover have "admonitions ''TIP'' = Some (PStr ''TIPADMONITION'')"
    using a(2) by simp
  moreover have "admonitions ''xxx'' = Some (PStr ''admonitionnote'')"
    using a(2) by simp
  moreover have "admonitions ''NOTE'' = Some (PStr ''note'')"
    using a(3) by (simp add: ADMONITIONS_def)
  ultimately show ?thesis
    using hl ha g(1) a(1) by blast
qed

section \<open>The cache of the merged mapping\<close>

lemmas adoc_defs = adoc_action_def adoc_load_def adoc_init_def get_metadata_def
  adoc_FILTERNAME_def dict_merge_def ADMONITIONS_def startswith_def adoc_build_def
  removeprefix_def paragraph_break_def

text \<open>
  In super-links.py the merged mapping is stored in the global \<open>LINKS\<close>, and a later
  span finds it there.
\<close>

lemma links_load_cached: "links_META g \<noteq> None \<Longrightarrow> links_load d g = Inr g"
  by (auto simp: links_load_def)

text \<open>
  In adoc-admonitions.py only \<open>META\<close> is stored. Once it is, the local variable
  \<open>admonitions\<close> is never bound again, and every paragraph with a text fails at line
  119; with the flattening of the host every paragraph has a text.
\<close>

lemma adoc_load_cached: "adoc_META g \<noteq> None \<Longrightarrow> adoc_load d g = Inr (None, g)"
  by (auto simp: adoc_load_def)

lemma adoc_later_paragraph_raises:
  "adoc_META g \<noteq> None \<Longrightarrow> sf (Block (Para xs)) \<noteq> [] \<Longrightarrow>
   adoc_action sf (Block (Para xs)) d g = Inl UnboundLocalError"
  by (simp add: adoc_action_def adoc_load_cached)

lemma flatten_para_nonempty: "flatten (Block (Para xs)) \<noteq> []"
  by (simp add: paragraph_break_def)

lemma adoc_every_later_paragraph_raises:
  "adoc_META g \<noteq> None \<Longrightarrow> adoc_action flatten (Block (Para xs)) d g = Inl UnboundLocalError"
  using adoc_later_paragraph_raises flatten_para_nonempty by blast

lemma adoc_first_paragraph_ok:
  "adoc_visit flatten \<lparr>format = ''html'', metadata = Map.empty\<rparr> adoc_init
     [Block (Para [Str ''NOTE:'', Space, Str ''one''])]
   = Inr ([RElem (Block (Div [] [''note''] Map.empty [Para [Str (''one'' @ paragraph_break)]]))],
          \<lparr>adoc_META = Some (PDict Map.empty)\<rparr>)"
  by (simp add: adoc_defs)

text \<open>
  Claim C1. The claim says that a second non-empty Paragraph of the same document is
  processed with the mapping of the first. The run over the two paragraphs
  \<open>NOTE: one\<close> and \<open>NOTE: two\<close> ends in \<open>UnboundLocalError\<close> at the second.
\<close>

theorem adoc_second_paragraph_raises:
  "adoc_visit flatten \<lparr>format = ''html'', metadata = Map.empty\<rparr> adoc_init
     [Block (Para [Str ''NOTE:'', Space, Str ''one'']),
      Block (Para [Str ''NOTE:'', Space, Str ''two''])]
   = Inl UnboundLocalError"
  by (simp add: adoc_defs)

section \<open>The admonition rule\<close>

lemma split_first_cases:
  "split_first s sep = s \<or> startswith s (split_first s sep @ sep)"
  by (induction s) (auto simp: startswith_def)

text \<open>
  On the first paragraph of a run the rule does what the claim says. A text whose
  part before the first \<open>": "\<close> is no trigger word leaves the node. With the built-in
  table and the flattening of the host, a paragraph that does not start with a trigger
  word followed by \<open>": "\<close> is left as it is: its text ends in the paragraph break and
  so is no trigger word as a whole.
\<close>

lemma adoc_no_trigger_unchanged:
  assumes "adoc_META g = None" "metadata d adoc_FILTERNAME = Some (PDict m)"
    and "dict_merge ADMONITIONS m (split_first (sf (Block (Para xs))) '': '') = None"
  shows "adoc_action sf (Block (Para xs)) d g = Inr (RNone, g\<lparr>adoc_META := Some (PDict m)\<rparr>)"
  using assms by (simp add: adoc_action_def adoc_load_first Let_def)

lemma ADMONITIONS_keys:
  "ADMONITIONS w \<noteq> None \<Longrightarrow> w \<in> {''NOTE'', ''TIP'', ''ERROR'', ''CODE'', ''WARNING'', ''QUOTE''}"
  by (auto simp: ADMONITIONS_def split: if_splits)

lemma adoc_first_visit_no_prefix_unchanged:
  assumes "adoc_META g = None" "metadata d adoc_FILTERNAME = None"
    and "\<And>w. ADMONITIONS w \<noteq> None \<Longrightarrow> \<not> startswith (flatten (Block (Para xs))) (w @ '': '')"
  shows "adoc_action flatten (Block (Para xs)) d g
     = Inr (RNone, g\<lparr>adoc_META := Some (PDict Map.empty)\<rparr>)"
proof -
  let ?text = "flatten (Block (Para xs))"
  let ?w = "split_first ?text '': ''"
  have last: "last ?text = CHR 0x0A" "?text \<noteq> []"
    by (simp_all add: paragraph_break_def)
  have "ADMONITIONS ?w = None"
  proof (rule ccontr)
    assume k: "ADMONITIONS ?w \<noteq> None"
    then have "\<not> startswith ?text (?w @ '': '')"
      by (rule assms(3))
    then have "?w = ?text"
      using split_first_cases [of ?text "'': ''"] by blast
    then have "?text \<in> {''NOTE'', ''TIP'', ''ERROR'', ''CODE'', ''WARNING'', ''QUOTE''}"
      using ADMONITIONS_keys [OF k] by simp
    then show False
      using last(1) by auto
  qed
  then show ?thesis
    using assms(1,2) last(2)
    by (simp add: adoc_action_def adoc_load_def get_metadata_def dict_merge_empty Let_def)
qed

text \<open>
  The paragraph \<open>NOTE: hello\<close> on the first visit: the new paragraph holds the rest
  of the flattened text, \<open>hello\<close> and the paragraph break.
\<close>

lemma adoc_hello_structured:
  "adoc_action flatten (Block (Para [Str ''NOTE:'', Space, Str ''hello'']))
     \<lparr>format = ''html'', metadata = Map.empty\<rparr> adoc_init
   = Inr (RElem (Block (Div [] [''note''] Map.empty [Para [Str (''hello'' @ paragraph_break)]])),
          \<lparr>adoc_META = Some (PDict Map.empty)\<rparr>)"
  by (simp add: adoc_defs)

lemma adoc_hello_latex:
  "adoc_action flatten (Block (Para [Str ''NOTE:'', Space, Str ''hello'']))
     \<lparr>format = ''latex'', metadata = Map.empty\<rparr> adoc_init
   = Inr (RList [Block (RawBlock (backslash @ ''begin{note}'') ''tex''),
                 Block (Para [Str (''hello'' @ paragraph_break)]),
                 Block (RawBlock (backslash @ ''end{note}'') ''tex'')],
          \<lparr>adoc_META = Some (PDict Map.empty)\<rparr>)"
  by (simp add: adoc_defs)

text \<open>
  Claim C3. The claim says that every Paragraph whose text does not start with a
  trigger word followed by \<open>": "\<close> is returned unchanged. The paragraph
  \<open>plain text\<close> is returned unchanged when it is the first paragraph of the run; the
  same paragraph met after another one is not returned at all: the action raises
  \<open>UnboundLocalError\<close>.
\<close>

theorem adoc_later_plain_paragraph_raises:
  "adoc_action flatten (Block (Para [Str ''plain'', Space, Str ''text'']))
       \<lparr>format = ''html'', metadata = Map.empty\<rparr> adoc_init
     = Inr (RNone, \<lparr>adoc_META = Some (PDict Map.empty)\<rparr>)
   \<and> adoc_action flatten (Block (Para [Str ''plain'', Space, Str ''text'']))
       \<lparr>format = ''html'', metadata = Map.empty\<rparr> \<lparr>adoc_META = Some (PDict Map.empty)\<rparr>
     = Inl UnboundLocalError"
  by (simp add: adoc_defs)

section \<open>Nodes that do not match\<close>

text \<open>
  In super-links.py a span without a \<open>type\<close> attribute and without a class, or with
  another identifier, is left as it is.
\<close>

lemma links_no_type_no_class:
  assumes "links_load d g = Inr g'" "attributes ''type'' = None" "links_LINKS g' [] = None"
  shows "links_action sf (Inline (Span ident [] attributes content)) d g = Inr (RNone, g')"
  using assms by (simp add: links_action_def link_type_def get_option_def)

lemma links_other_identifier:
  assumes "links_load d g = Inr g'" "ident \<noteq> IDNAME"
  shows "links_action sf (Inline (Span ident classes attributes content)) d g = Inr (RNone, g')"
  using assms by (simp add: links_action_def)

text \<open>
  In divs-to-latex.py the length of the class list is tested before its first element
  is read.
\<close>

lemma env_empty_classes_unchanged:
  "env_action (Block (Div ident [] attributes content)) d h
     = Inr (RNone, Block (Div ident [] attributes content), h)"
  by (simp add: env_action_def Let_def)

text \<open>
  Claim C8. The claim says that a node failing the matcher, a Div with an empty class
  list among them, is returned unchanged and nothing is raised. In beamer-twocol.py
  the Div \<open>{#x}\<close> with no class raises \<open>IndexError\<close> at line 76.
\<close>

theorem twocol_empty_classes_raises:
  "twocol_action (Block (Div ''x'' [] Map.empty [Para [Str ''a'']]))
     \<lparr>format = ''beamer'', metadata = Map.empty\<rparr>
   = Inl IndexError"
  by (simp add: twocol_action_def)

section \<open>The column split\<close>

text \<open>
  The first rule is found at the length of the part before it, and the two list
  comprehensions of lines 100 and 106 give back the parts around it.
\<close>

lemma ruler_positions_none:
  "HorizontalRule \<notin> set content \<Longrightarrow> ruler_positions content = []"
  by (metis (mono_tags, lifting) ruler_positions_def filter_False atLeastLessThan_iff nth_mem set_upt)

lemma ruler_positions_first:
  assumes "HorizontalRule \<notin> set pre"
  shows "\<exists>others. ruler_positions (pre @ HorizontalRule # post) = length pre # others"
proof -
  let ?c = "pre @ HorizontalRule # post"
  have "[0 ..< length pre + Suc (length post)]
          = [0 ..< length pre] @ [length pre ..< length pre + Suc (length post)]"
    by (rule upt_add_eq_append) simp
  moreover have "[length pre ..< length pre + Suc (length post)]
          = length pre # [Suc (length pre) ..< length pre + Suc (length post)]"
    by (rule upt_conv_Cons) simp
  ultimately have split: "[0 ..< length ?c]
          = [0 ..< length pre] @ length pre # [Suc (length pre) ..< length ?c]"
    by (simp del: upt_Suc)
  have "filter (\<lambda>i. ?c ! i = HorizontalRule) [0 ..< length pre] = []"
  proof -
    have "\<And>i. i < length pre \<Longrightarrow> pre ! i \<noteq> HorizontalRule"
      using assms nth_mem by metis
    then show ?thesis by (simp add: filter_empty_conv nth_append)
  qed
  then show ?thesis
    unfolding ruler_positions_def split by simp
qed

lemma before_content:
  "map (\<lambda>i. (pre @ ys) ! i) [0 ..< length pre] = pre"
  by (rule nth_equalityI) (simp_all add: nth_append)

lemma after_content:
  "map (\<lambda>i. (pre @ x # post) ! i) [Suc (length pre) ..< Suc (length pre + length post)] = post"
  by (rule nth_equalityI) (simp_all add: nth_append del: upt_Suc)

lemma twocol_action_split:
  assumes "HorizontalRule \<notin> set pre"
  shows "twocol_action (Block (Div ident (DIVNAME # classes) attributes (pre @ HorizontalRule # post))) d
     = Inr (RElem (Block (Div [] [''columns''] Map.empty
         [Div [] [''column'']
            (dict_merge (snd (process_attributes attributes)) (left (fst (process_attributes attributes))))
            pre,
          Div [] [''column'']
            (dict_merge (snd (process_attributes attributes)) (right (fst (process_attributes attributes))))
            post])))"
proof -
  obtain others where r: "ruler_positions (pre @ HorizontalRule # post) = length pre # others"
    using ruler_positions_first [OF assms] by blast
  show ?thesis
    using before_content [of pre "HorizontalRule # post"] after_content [of pre HorizontalRule post]
    by (simp add: twocol_action_def r Let_def split_beta del: upt_Suc)
qed

lemma twocol_action_no_rule:
  "HorizontalRule \<notin> set content \<Longrightarrow>
   twocol_action (Block (Div ident (DIVNAME # classes) attributes content)) d = Inr RNone"
  by (simp add: twocol_action_def ruler_positions_none)

text \<open>
  The pieces of \<open>split(",", maxsplit=2)\<close>: the first is the text before the first
  comma, and there is a second exactly when there is a comma; it ends at the second comma.
\<close>

lemma split_max_nonempty: "split_max sep n v \<noteq> []"
  by (induction sep n v rule: split_max.induct) (auto split: list.splits)

lemma split_max_hd: "hd (split_max sep (Suc n) v) = takeWhile (\<lambda>c. c \<noteq> sep) v"
  using split_max_nonempty
  by (induction v) (auto split: list.splits)

lemma split_max_length: "1 < length (split_max sep (Suc n) v) \<longleftrightarrow> sep \<in> set v"
proof (induction v)
  case Nil
  then show ?case by simp
next
  case (Cons c cs)
  then show ?case
    using split_max_nonempty [of sep n cs] split_max_nonempty [of sep "Suc n" cs]
    by (cases "split_max sep n cs"; cases "split_max sep (Suc n) cs") auto
qed

lemma split_max_second:
  "sep \<in> set v \<Longrightarrow>
   split_max sep (Suc (Suc n)) v ! 1 = takeWhile (\<lambda>c. c \<noteq> sep) (tl (dropWhile (\<lambda>c. c \<noteq> sep) v))"
proof (induction v)
  case Nil
  then show ?case by simp
next
  case (Cons c cs)
  show ?case
  proof (cases "c = sep")
    case True
    then show ?thesis
      using split_max_hd [of sep n cs] split_max_nonempty [of sep "Suc n" cs]
      by (simp add: hd_conv_nth)
  next
    case False
    with Cons show ?thesis
      using split_max_nonempty [of sep "Suc (Suc n)" cs]
      by (cases "split_max sep (Suc (Suc n)) cs") auto
  qed
qed

lemma process_attributes_rest:
  "snd (process_attributes a) k = (if k = ''align'' \<or> k = ''width'' then None else a k)"
  by (simp add: process_attributes_def split: option.splits)

lemma split_attributes_left:
  "left (split_attributes v n sh) = (left sh)(n \<mapsto> takeWhile (\<lambda>c. c \<noteq> CHR '','') v)"
  using split_max_hd [of "CHR '',''" "Suc 0" v] split_max_nonempty [of "CHR '',''" 2 v]
  by (simp add: split_attributes_def Let_def hd_conv_nth numeral_2_eq_2)

lemma split_attributes_right:
  "right (split_attributes v n sh) =
     (right sh)(n \<mapsto> (if CHR '','' \<in> set v
                        then takeWhile (\<lambda>c. c \<noteq> CHR '','') (tl (dropWhile (\<lambda>c. c \<noteq> CHR '','') v))
                        else v))"
proof (cases "CHR '','' \<in> set v")
  case True
  then show ?thesis
    using split_max_length [of "CHR '',''" "Suc 0" v] split_max_second [of "CHR '',''" v 0]
    by (simp add: split_attributes_def Let_def numeral_2_eq_2)
next
  case False
  then have "takeWhile (\<lambda>c. c \<noteq> CHR '','') v = v"
    by (auto simp: takeWhile_eq_all_conv)
  then have "split_max CHR '','' 2 v ! 0 = v"
    using split_max_hd [of "CHR '',''" "Suc 0" v] split_max_nonempty [of "CHR '',''" 2 v]
    by (simp add: numeral_2_eq_2 hd_conv_nth)
  moreover have "\<not> 1 < length (split_max CHR '','' 2 v)"
    using False split_max_length [of "CHR '',''" "Suc 0" v] by (simp add: numeral_2_eq_2)
  ultimately show ?thesis
    using False by (simp add: split_attributes_def Let_def)
qed

lemma process_attributes_left:
  "left (fst (process_attributes a)) k =
     (if k = ''align'' \<or> k = ''width''
      then map_option (takeWhile (\<lambda>c. c \<noteq> CHR '','')) (a k) else None)"
  by (simp add: process_attributes_def split_attributes_left split: option.splits)

lemma process_attributes_right:
  "right (fst (process_attributes a)) k =
     (if k = ''align'' \<or> k = ''width''
      then map_option (\<lambda>v. if CHR '','' \<in> set v
                        then takeWhile (\<lambda>c. c \<noteq> CHR '','') (tl (dropWhile (\<lambda>c. c \<noteq> CHR '','') v))
                        else v) (a k)
      else None)"
  by (simp add: process_attributes_def split_attributes_right split: option.splits)

lemma column_left_attributes:
  "dict_merge (snd (process_attributes a)) (left (fst (process_attributes a))) k =
     (if k = ''align'' \<or> k = ''width''
      then map_option (takeWhile (\<lambda>c. c \<noteq> CHR '','')) (a k) else a k)"
  by (simp add: dict_merge_apply process_attributes_left process_attributes_rest split: option.splits)

lemma column_right_attributes:
  "dict_merge (snd (process_attributes a)) (right (fst (process_attributes a))) k =
     (if k = ''align'' \<or> k = ''width''
      then map_option (\<lambda>v. if CHR '','' \<in> set v
                        then takeWhile (\<lambda>c. c \<noteq> CHR '','') (tl (dropWhile (\<lambda>c. c \<noteq> CHR '','') v))
                        else v) (a k)
      else a k)"
  by (simp add: dict_merge_apply process_attributes_right process_attributes_rest split: option.splits)

text \<open>
  Claim C5. A Div whose first class is \<open>twocol\<close> and whose children are \<open>pre\<close>, the
  first HorizontalRule and \<open>post\<close> (so \<open>[A, B, Rule, C]\<close> has \<open>pre = [A, B]\<close> and
  \<open>post = [C]\<close>) becomes a Div of class \<open>columns\<close> with exactly two children of class
  \<open>column\<close>, holding \<open>pre\<close> and \<open>post\<close> in their order; the rule is in neither, and
  \<open>post = []\<close> gives a right column without children. Without a HorizontalRule
  among the children the action returns nothing and the node stays.
\<close>

theorem twocol_split:
  "(HorizontalRule \<notin> set pre \<longrightarrow>
      twocol_action (Block (Div ident (DIVNAME # classes) attributes (pre @ HorizontalRule # post))) d
        = Inr (RElem (Block (Div [] [''columns''] Map.empty
            [Div [] [''column'']
               (dict_merge (snd (process_attributes attributes))
                  (left (fst (process_attributes attributes)))) pre,
             Div [] [''column'']
               (dict_merge (snd (process_attributes attributes))
                  (right (fst (process_attributes attributes)))) post]))))
   \<and> (HorizontalRule \<notin> set content \<longrightarrow>
      twocol_action (Block (Div ident (DIVNAME # classes) attributes content)) d = Inr RNone)"
  using twocol_action_split [of pre ident classes attributes post d]
    twocol_action_no_rule [of content ident classes attributes d]
  by blast

theorem twocol_split_witness:
  "HorizontalRule \<notin> set [Para [Str ''A''], Para [Str ''B'']]
   \<and> twocol_action (Block (Div [] [''twocol''] Map.empty
        [Para [Str ''A''], Para [Str ''B''], HorizontalRule, Para [Str ''C'']]))
        \<lparr>format = ''beamer'', metadata = Map.empty\<rparr>
     = Inr (RElem (Block (Div [] [''columns''] Map.empty
         [Div [] [''column''] Map.empty [Para [Str ''A''], Para [Str ''B'']],
          Div [] [''column''] Map.empty [Para [Str ''C'']]])))
   \<and> HorizontalRule \<notin> set [Para [Str ''A'']]
   \<and> twocol_action (Block (Div [] [''twocol''] Map.empty [Para [Str ''A'']]))
        \<lparr>format = ''beamer'', metadata = Map.empty\<rparr>
     = Inr RNone"
  using twocol_split [of "[Para [Str ''A''], Para [Str ''B'']]" "[]" "[]" Map.empty "[Para [Str ''C'']]"
      "\<lparr>format = ''beamer'', metadata = Map.empty\<rparr>" "[Para [Str ''A'']]"]
  by (simp add: DIVNAME_def process_attributes_def dict_merge_def)

text \<open>The rule as last child: the right column is there and has no children.\<close>

lemma twocol_rule_last:
  "twocol_action (Block (Div [] [''twocol''] Map.empty [Para [Str ''A''], HorizontalRule]))
        \<lparr>format = ''beamer'', metadata = Map.empty\<rparr>
     = Inr (RElem (Block (Div [] [''columns''] Map.empty
         [Div [] [''column''] Map.empty [Para [Str ''A'']],
          Div [] [''column''] Map.empty []])))"
  using twocol_action_split [of "[Para [Str ''A'']]" "[]" "[]" Map.empty "[]"]
  by (simp add: DIVNAME_def process_attributes_def dict_merge_def)

text \<open>
  Claim C7, as amended. Each of \<open>align\<close> and \<open>width\<close> is cut at its commas: the left
  column receives the text before the first comma (the whole value when it has no
  comma), the right column the text between the first comma and the second (up to the
  end when there is one comma only; the whole value when there is none). Every other
  attribute of the Div is copied unchanged to both columns.
\<close>

theorem twocol_attribute_pairs:
  "HorizontalRule \<notin> set pre \<longrightarrow>
     twocol_action (Block (Div ident (DIVNAME # classes) attributes (pre @ HorizontalRule # post))) d
       = Inr (RElem (Block (Div [] [''columns''] Map.empty
           [Div [] [''column'']
              (\<lambda>k. if k = ''align'' \<or> k = ''width''
                    then map_option (takeWhile (\<lambda>c. c \<noteq> CHR '','')) (attributes k)
                    else attributes k) pre,
            Div [] [''column'']
              (\<lambda>k. if k = ''align'' \<or> k = ''width''
                    then map_option
                           (\<lambda>v. if CHR '','' \<in> set v
                                then takeWhile (\<lambda>c. c \<noteq> CHR '','')
                                       (tl (dropWhile (\<lambda>c. c \<noteq> CHR '','') v))
                                else v) (attributes k)
                    else attributes k) post])))"
proof -
  have l: "dict_merge (snd (process_attributes attributes)) (left (fst (process_attributes attributes)))
     = (\<lambda>k. if k = ''align'' \<or> k = ''width''
            then map_option (takeWhile (\<lambda>c. c \<noteq> CHR '','')) (attributes k)
            else attributes k)"
    by (rule ext) (rule column_left_attributes)
  have r: "dict_merge (snd (process_attributes attributes)) (right (fst (process_attributes attributes)))
     = (\<lambda>k. if k = ''align'' \<or> k = ''width''
            then map_option
                   (\<lambda>v. if CHR '','' \<in> set v
                        then takeWhile (\<lambda>c. c \<noteq> CHR '','') (tl (dropWhile (\<lambda>c. c \<noteq> CHR '','') v))
                        else v) (attributes k)
            else attributes k)"
    by (rule ext) (rule column_right_attributes)
  show ?thesis
    using twocol_action_split [of pre ident classes attributes post d]
    unfolding l r by blast
qed

theorem twocol_attribute_pairs_witness:
  "HorizontalRule \<notin> set [Para [Str ''A'']]
   \<and> twocol_action (Block (Div [] [''twocol'']
          (Map.empty(''align'' \<mapsto> ''top,bottom'', ''width'' \<mapsto> ''50%'', ''k'' \<mapsto> ''v''))
          [Para [Str ''A''], HorizontalRule, Para [Str ''C'']]))
        \<lparr>format = ''beamer'', metadata = Map.empty\<rparr>
     = Inr (RElem (Block (Div [] [''columns''] Map.empty
         [Div [] [''column'']
            (Map.empty(''k'' \<mapsto> ''v'', ''align'' \<mapsto> ''top'', ''width'' \<mapsto> ''50%''))
            [Para [Str ''A'']],
          Div [] [''column'']
            (Map.empty(''k'' \<mapsto> ''v'', ''align'' \<mapsto> ''bottom'', ''width'' \<mapsto> ''50%''))
            [Para [Str ''C'']]])))"
  using twocol_attribute_pairs [of "[Para [Str ''A'']]" "[]" "[]"
      "Map.empty(''align'' \<mapsto> ''top,bottom'', ''width'' \<mapsto> ''50%'', ''k'' \<mapsto> ''v'')"
      "[Para [Str ''C'']]" "\<lparr>format = ''beamer'', metadata = Map.empty\<rparr>"]
  by (auto simp: DIVNAME_def fun_eq_iff)

text \<open>
  Claim C7 as stated says that the value is split on its first comma. With
  \<open>align="a,b,c"\<close> the part after the first comma is \<open>b,c\<close>, and the right column
  receives \<open>b\<close>.
\<close>

theorem twocol_third_value_dropped:
  "twocol_action (Block (Div [] [''twocol''] (Map.empty(''align'' \<mapsto> ''a,b,c''))
        [Para [Str ''A''], HorizontalRule, Para [Str ''C'']]))
        \<lparr>format = ''beamer'', metadata = Map.empty\<rparr>
     = Inr (RElem (Block (Div [] [''columns''] Map.empty
         [Div [] [''column''] (Map.empty(''align'' \<mapsto> ''a'')) [Para [Str ''A'']],
          Div [] [''column''] (Map.empty(''align'' \<mapsto> ''b'')) [Para [Str ''C'']]])))
   \<and> tl (dropWhile (\<lambda>c. c \<noteq> CHR '','') ''a,b,c'') = ''b,c''"
  using twocol_action_split [of "[Para [Str ''A'']]" "[]" "[]" "Map.empty(''align'' \<mapsto> ''a,b,c'')"
      "[Para [Str ''C'']]" "\<lparr>format = ''beamer'', metadata = Map.empty\<rparr>"]
  by (auto simp: DIVNAME_def fun_eq_iff column_left_attributes column_right_attributes)

section \<open>The link rule\<close>

lemmas links_defs = links_action_def link_type_def get_option_def IDNAME_def get_link_text_def
  link_of_dict_def endswith_def dict_get_def attr_get_def str_of_def quote_plus_def
  quote_char_def always_safe_def hex_digit_def

text \<open>The first span of a document without a \<open>super-links\<close> table keeps the built-in table.\<close>

lemma links_load_plain:
  "links_load \<lparr>format = f, metadata = Map.empty\<rparr> links_init
     = Inr \<lparr>links_LINKS = LINKS, links_META = Some (PDict Map.empty)\<rparr>"
  by (simp add: links_load_def links_init_def get_metadata_def dict_merge_empty)

lemma LINKS_wiki:
  "LINKS ''wiki'' = Some (PDict (Map.empty(
        ''url'' \<mapsto> PStr ''https://en.wikipedia.org/wiki'',
        ''encode'' \<mapsto> PBool True,
        ''before'' \<mapsto> PStr [],
        ''after'' \<mapsto> PStr [])))"
  by (simp add: LINKS_def)

lemma LINKS_pubmed:
  "LINKS ''pubmed'' = Some (PDict (Map.empty(
        ''url'' \<mapsto> PStr ''https://pubmed.ncbi.nlm.nih.gov/'',
        ''before'' \<mapsto> PStr ''pubmed:'')))"
  by (simp add: LINKS_def)

lemma LINKS_github: "LINKS ''github'' = Some (PStr ''https://github.com/'')"
  by (simp add: LINKS_def)

text \<open>The address is built before the title is looked at, and never from it.\<close>

lemma title_not_in_url:
  "map_sum id snd (get_link_text flatten links t (Inline (Span i cs (a(''title'' \<mapsto> x)) xs)))
     = map_sum id snd (get_link_text flatten links t (Inline (Span i cs a xs)))"
  by (auto simp: get_link_text_def link_of_dict_def attr_get_def str_of_def Let_def
      split: option.splits pyval.splits)

lemma wiki_plain:
  "links_action flatten
       (Inline (Span ''l'' [''wiki''] Map.empty [Str ''Arabidopsis'', Space, Str ''thaliana'']))
       \<lparr>format = ''html'', metadata = Map.empty\<rparr> links_init
     = Inr (RElem (Inline (Link [Str ''Arabidopsis thaliana'']
                             ''https://en.wikipedia.org/wiki/Arabidopsis+thaliana''
                             [] [''wiki''] Map.empty)),
            \<lparr>links_LINKS = LINKS, links_META = Some (PDict Map.empty)\<rparr>)"
  by (simp add: links_load_plain links_defs LINKS_wiki)

lemma wiki_title:
  "links_action flatten
       (Inline (Span ''l'' [''wiki''] [''title'' \<mapsto> ''Thale cress'']
                  [Str ''Arabidopsis'', Space, Str ''thaliana'']))
       \<lparr>format = ''html'', metadata = Map.empty\<rparr> links_init
     = Inr (RElem (Inline (Link [Str ''Thale cress'']
                             ''https://en.wikipedia.org/wiki/Arabidopsis+thaliana''
                             [] [''wiki''] [''title'' \<mapsto> ''Thale cress''])),
            \<lparr>links_LINKS = LINKS, links_META = Some (PDict Map.empty)\<rparr>)"
  by (simp add: links_load_plain links_defs LINKS_wiki)

lemma github_title:
  "links_action flatten
       (Inline (Span ''l'' [''github''] [''title'' \<mapsto> ''the code''] [Str ''a/b c'']))
       \<lparr>format = ''html'', metadata = Map.empty\<rparr> links_init
     = Inr (RElem (Inline (Link [Str ''the code''] ''https://github.com/a/b c''
                             [] [''github''] [''title'' \<mapsto> ''the code''])),
            \<lparr>links_LINKS = LINKS, links_META = Some (PDict Map.empty)\<rparr>)"
  by (simp add: links_load_plain links_defs LINKS_github)


lemma endswith_slash: "endswith u ''/'' \<longleftrightarrow> u \<noteq> [] \<and> last u = CHR ''/''"
proof (cases u rule: rev_cases)
  case Nil
  then show ?thesis by (simp add: endswith_def)
next
  case (snoc ys y)
  then show ?thesis by (auto simp: endswith_def)
qed

lemma link_of_string:
  "links t = Some (PStr u) \<Longrightarrow>
   get_link_text sf links t el
     = Inr (case elem_attributes el ''title'' of
              Some ti \<Rightarrow> (if ti \<noteq> [] then ti else sf el)
            | None \<Rightarrow> sf el,
            u @ (if u \<noteq> [] \<and> last u = CHR ''/'' then [] else ''/'') @ sf el)"
  by (simp add: get_link_text_def Let_def attr_get_def endswith_slash split: option.splits)

lemma link_of_dict_url:
  assumes "url_data ''url'' = Some (PStr u)"
    and "(case attributes ''before'' of
            Some v \<Rightarrow> PStr v
          | None \<Rightarrow> (case url_data ''before'' of Some v \<Rightarrow> v | None \<Rightarrow> PStr [])) = PStr pre"
    and "(case attributes ''after'' of
            Some v \<Rightarrow> PStr v
          | None \<Rightarrow> (case url_data ''after'' of Some v \<Rightarrow> v | None \<Rightarrow> PStr [])) = PStr app"
  shows "map_sum id snd (link_of_dict url_data attributes link_text)
     = Inr (u @ (if u \<noteq> [] \<and> last u = CHR ''/'' then [] else ''/'')
              @ (if truthy (case url_data ''encode'' of Some v \<Rightarrow> v | None \<Rightarrow> PNone)
                 then quote_plus link_text else link_text))"
  using assms
  by (auto simp: link_of_dict_def attr_get_def dict_get_def str_of_def Let_def endswith_slash
      split: option.splits)

lemma hex_digit_value:
  assumes "n < 16"
  shows "hex_digit n \<in> set ''0123456789ABCDEF'' \<and> hex_value (hex_digit n) = n"
proof -
  have "n \<in> {0, 1, 2, 3, 4, 5, 6, 7, 8, 9, 10, 11, 12, 13, 14, 15}"
    using assms by (simp add: insert_commute) arith
  then show ?thesis
    by (auto simp: hex_digit_def hex_value_def)
qed

lemma quote_plus_append: "quote_plus (s1 @ s2) = quote_plus s1 @ quote_plus s2"
  by (simp add: quote_plus_def)

lemma quote_plus_byte:
  "quote_plus [c] =
     (if c = CHR '' '' then ''+''
      else if c \<in> set (''ABCDEFGHIJKLMNOPQRSTUVWXYZabcdefghijklmnopqrstuvwxyz0123456789_.-~'') then [c]
      else [CHR ''%'', hex_digit (of_char c div 16), hex_digit (of_char c mod 16)])"
  by (simp add: quote_plus_def quote_char_def always_safe_def)

lemma quote_plus_escape:
  assumes "c \<noteq> CHR '' ''"
    and "c \<notin> set (''ABCDEFGHIJKLMNOPQRSTUVWXYZabcdefghijklmnopqrstuvwxyz0123456789_.-~'')"
  shows "\<exists>h l. quote_plus [c] = [CHR ''%'', h, l]
           \<and> h \<in> set ''0123456789ABCDEF'' \<and> l \<in> set ''0123456789ABCDEF''
           \<and> 16 * hex_value h + hex_value l = of_char c"
proof -
  have d: "(of_char c :: nat) div 16 < 16"
    using nat_of_char_less_256 [of c] by (simp add: less_mult_imp_div_less)
  have m: "(of_char c :: nat) mod 16 < 16" by simp
  show ?thesis
    using hex_digit_value [OF d] hex_digit_value [OF m] assms
    by (simp only: quote_plus_byte if_False) auto
qed

lemma link_url_string:
  "(links t = Some (PStr u) \<longrightarrow>
      get_link_text sf links t el
        = Inr (case elem_attributes el ''title'' of
                 Some ti \<Rightarrow> (if ti \<noteq> [] then ti else sf el)
               | None \<Rightarrow> sf el,
               u @ (if u \<noteq> [] \<and> last u = CHR ''/'' then [] else ''/'') @ sf el))"
  by (simp add: link_of_string)

lemma link_url_encoded:
  "(links t = Some (PDict url_data) \<and> url_data ''url'' = Some (PStr u)
        \<and> (case elem_attributes el ''before'' of
               Some v \<Rightarrow> PStr v
             | None \<Rightarrow> (case url_data ''before'' of Some v \<Rightarrow> v | None \<Rightarrow> PStr [])) = PStr pre
        \<and> (case elem_attributes el ''after'' of
               Some v \<Rightarrow> PStr v
             | None \<Rightarrow> (case url_data ''after'' of Some v \<Rightarrow> v | None \<Rightarrow> PStr [])) = PStr app
        \<and> url_data ''encode'' = Some (PBool True) \<longrightarrow>
      map_sum id snd (get_link_text sf links t el)
        = Inr (u @ (if u \<noteq> [] \<and> last u = CHR ''/'' then [] else ''/'') @ quote_plus (sf el)))"
  using link_of_dict_url [of url_data u "elem_attributes el" pre app "sf el"]
  by (auto simp: get_link_text_def Let_def)

lemma link_url_verbatim:
  "(links t = Some (PDict url_data) \<and> url_data ''url'' = Some (PStr u)
        \<and> (case elem_attributes el ''before'' of
               Some v \<Rightarrow> PStr v
             | None \<Rightarrow> (case url_data ''before'' of Some v \<Rightarrow> v | None \<Rightarrow> PStr [])) = PStr pre
        \<and> (case elem_attributes el ''after'' of
               Some v \<Rightarrow> PStr v
             | None \<Rightarrow> (case url_data ''after'' of Some v \<Rightarrow> v | None \<Rightarrow> PStr [])) = PStr app
        \<and> (url_data ''encode'' = None \<or> url_data ''encode'' = Some (PBool False)) \<longrightarrow>
      map_sum id snd (get_link_text sf links t el)
        = Inr (u @ (if u \<noteq> [] \<and> last u = CHR ''/'' then [] else ''/'') @ sf el))"
  using link_of_dict_url [of url_data u "elem_attributes el" pre app "sf el"]
  by (auto simp: get_link_text_def Let_def)

lemma quote_plus_blank: "quote_plus '' '' = ''+''"
  by (simp add: quote_plus_byte)

lemma quote_plus_safe:
  "(c \<in> set ''ABCDEFGHIJKLMNOPQRSTUVWXYZabcdefghijklmnopqrstuvwxyz0123456789_.-~'' \<longrightarrow> quote_plus [c] = [c])"
  by (auto simp: quote_plus_byte)

lemma quote_plus_unsafe:
  "(c \<noteq> CHR '' '' \<and> c \<notin> set ''ABCDEFGHIJKLMNOPQRSTUVWXYZabcdefghijklmnopqrstuvwxyz0123456789_.-~'' \<longrightarrow>
      (\<exists>h l. quote_plus [c] = [CHR ''%'', h, l]
         \<and> h \<in> set ''0123456789ABCDEF'' \<and> l \<in> set ''0123456789ABCDEF''
         \<and> 16 * hex_value h + hex_value l = of_char c))"
  using quote_plus_escape [of c] by blast

lemma title_never_in_url:
  "(\<forall>links t i cs a x xs.
         map_sum id snd (get_link_text flatten links t (Inline (Span i cs (a(''title'' \<mapsto> x)) xs)))
           = map_sum id snd (get_link_text flatten links t (Inline (Span i cs a xs))))"
  by (intro allI) (rule title_not_in_url)

text \<open>
  Claim C6. The span \<open>[Arabidopsis thaliana]{#l .wiki}\<close> becomes a link to
  \<open>https://en.wikipedia.org/wiki/Arabidopsis+thaliana\<close> showing
  \<open>Arabidopsis thaliana\<close>; with \<open>title="Thale cress"\<close> it shows \<open>Thale cress\<close> and
  the address is the same. In general, for every table, trigger, span and flattening:
  the address is the target, one slash unless the target already ends in one, and the
  base text; for a bare string the base text as it is; for a record the base text
  encoded when \<open>encode\<close> is true and as it is when \<open>encode\<close> is false or absent.
  The encoding works byte by byte: a blank becomes \<open>+\<close>, a letter, a digit and each
  of \<open>_.-~\<close> stays, and any other byte becomes \<open>%\<close> and the two upper-case
  hexadecimal digits of its code, the high one first. Setting a title never changes
  the address.
\<close>

theorem wiki_link_construction:
  "links_action flatten
       (Inline (Span ''l'' [''wiki''] Map.empty [Str ''Arabidopsis'', Space, Str ''thaliana'']))
       \<lparr>format = ''html'', metadata = Map.empty\<rparr> links_init
     = Inr (RElem (Inline (Link [Str ''Arabidopsis thaliana'']
                             ''https://en.wikipedia.org/wiki/Arabidopsis+thaliana''
                             [] [''wiki''] Map.empty)),
            \<lparr>links_LINKS = LINKS, links_META = Some (PDict Map.empty)\<rparr>)
   \<and> links_action flatten
       (Inline (Span ''l'' [''wiki''] [''title'' \<mapsto> ''Thale cress'']
                  [Str ''Arabidopsis'', Space, Str ''thaliana'']))
       \<lparr>format = ''html'', metadata = Map.empty\<rparr> links_init
     = Inr (RElem (Inline (Link [Str ''Thale cress'']
                             ''https://en.wikipedia.org/wiki/Arabidopsis+thaliana''
                             [] [''wiki''] [''title'' \<mapsto> ''Thale cress''])),
            \<lparr>links_LINKS = LINKS, links_META = Some (PDict Map.empty)\<rparr>)
   \<and> links_action flatten
       (Inline (Span ''l'' [''github''] [''title'' \<mapsto> ''the code''] [Str ''a/b c'']))
       \<lparr>format = ''html'', metadata = Map.empty\<rparr> links_init
     = Inr (RElem (Inline (Link [Str ''the code''] ''https://github.com/a/b c''
                             [] [''github''] [''title'' \<mapsto> ''the code''])),
            \<lparr>links_LINKS = LINKS, links_META = Some (PDict Map.empty)\<rparr>)
   \<and> (links t = Some (PStr u) \<longrightarrow>
      get_link_text sf links t el
        = Inr (case elem_attributes el ''title'' of
                 Some ti \<Rightarrow> (if ti \<noteq> [] then ti else sf el)
               | None \<Rightarrow> sf el,
               u @ (if u \<noteq> [] \<and> last u = CHR ''/'' then [] else ''/'') @ sf el))
   \<and> (links t = Some (PDict url_data) \<and> url_data ''url'' = Some (PStr u)
        \<and> (case elem_attributes el ''before'' of
               Some v \<Rightarrow> PStr v
             | None \<Rightarrow> (case url_data ''before'' of Some v \<Rightarrow> v | None \<Rightarrow> PStr [])) = PStr pre
        \<and> (case elem_attributes el ''after'' of
               Some v \<Rightarrow> PStr v
             | None \<Rightarrow> (case url_data ''after'' of Some v \<Rightarrow> v | None \<Rightarrow> PStr [])) = PStr app
        \<and> url_data ''encode'' = Some (PBool True) \<longrightarrow>
      map_sum id snd (get_link_text sf links t el)
        = Inr (u @ (if u \<noteq> [] \<and> last u = CHR ''/'' then [] else ''/'') @ quote_plus (sf el)))
   \<and> (links t = Some (PDict url_data) \<and> url_data ''url'' = Some (PStr u)
        \<and> (case elem_attributes el ''before'' of
               Some v \<Rightarrow> PStr v
             | None \<Rightarrow> (case url_data ''before'' of Some v \<Rightarrow> v | None \<Rightarrow> PStr [])) = PStr pre
        \<and> (case elem_attributes el ''after'' of
               Some v \<Rightarrow> PStr v
             | None \<Rightarrow> (case url_data ''after'' of Some v \<Rightarrow> v | None \<Rightarrow> PStr [])) = PStr app
        \<and> (url_data ''encode'' = None \<or> url_data ''encode'' = Some (PBool False)) \<longrightarrow>
      map_sum id snd (get_link_text sf links t el)
        = Inr (u @ (if u \<noteq> [] \<and> last u = CHR ''/'' then [] else ''/'') @ sf el))
   \<and> quote_plus (s1 @ s2) = quote_plus s1 @ quote_plus s2
   \<and> quote_plus '' '' = ''+''
   \<and> (c \<in> set ''ABCDEFGHIJKLMNOPQRSTUVWXYZabcdefghijklmnopqrstuvwxyz0123456789_.-~'' \<longrightarrow> quote_plus [c] = [c])
   \<and> (c \<noteq> CHR '' '' \<and> c \<notin> set ''ABCDEFGHIJKLMNOPQRSTUVWXYZabcdefghijklmnopqrstuvwxyz0123456789_.-~'' \<longrightarrow>
      (\<exists>h l. quote_plus [c] = [CHR ''%'', h, l]
         \<and> h \<in> set ''0123456789ABCDEF'' \<and> l \<in> set ''0123456789ABCDEF''
         \<and> 16 * hex_value h + hex_value l = of_char c))
   \<and> (\<forall>links t i cs a x xs.
         map_sum id snd (get_link_text flatten links t (Inline (Span i cs (a(''title'' \<mapsto> x)) xs)))
           = map_sum id snd (get_link_text flatten links t (Inline (Span i cs a xs))))"
  by (intro conjI)
    (rule wiki_plain, rule wiki_title, rule github_title, rule link_url_string,
     rule link_url_encoded, rule link_url_verbatim, rule quote_plus_append,
     rule quote_plus_blank, rule quote_plus_safe, rule quote_plus_unsafe,
     rule title_never_in_url)

theorem wiki_link_construction_witness:
  "[''foo'' \<mapsto> PStr ''https://hello.co''] ''foo'' = Some (PStr ''https://hello.co'')
   \<and> get_link_text flatten [''foo'' \<mapsto> PStr ''https://hello.co''] ''foo''
         (Inline (Span ''l'' [''foo''] Map.empty [Str ''FOO'']))
       = Inr (''FOO'', ''https://hello.co/FOO'')
   \<and> LINKS ''github'' = Some (PStr ''https://github.com/'')
   \<and> get_link_text flatten LINKS ''github''
         (Inline (Span ''l'' [''github''] Map.empty [Str ''a/b c'']))
       = Inr (''a/b c'', ''https://github.com/a/b c'')
   \<and> map_sum id snd (get_link_text flatten LINKS ''wiki''
         (Inline (Span ''l'' [''wiki''] Map.empty [Str ''a/b c''])))
       = Inr ''https://en.wikipedia.org/wiki/a%2Fb+c''
   \<and> map_sum id snd (get_link_text flatten LINKS ''pubmed''
         (Inline (Span ''l'' [''pubmed''] Map.empty [Str ''a/b c''])))
       = Inr ''https://pubmed.ncbi.nlm.nih.gov/a/b c''
   \<and> map_sum id snd (get_link_text flatten
         [''other'' \<mapsto> PDict [''url'' \<mapsto> PStr ''HTTP://foo.com/'', ''encode'' \<mapsto> PBool False]] ''other''
         (Inline (Span ''l'' [''other''] Map.empty [Str ''Some'', Space, Str ''text''])))
       = Inr ''HTTP://foo.com/Some text''
   \<and> quote_plus ''a'' = ''a''
   \<and> quote_plus ''/'' = ''%2F''"
proof -
  let ?foo = "[''foo'' \<mapsto> PStr ''https://hello.co'']"
  let ?other = "[''other'' \<mapsto> PDict [''url'' \<mapsto> PStr ''HTTP://foo.com/'', ''encode'' \<mapsto> PBool False]]"
  have h1: "?foo ''foo'' = Some (PStr ''https://hello.co'')" by simp
  have w1: "get_link_text flatten ?foo ''foo'' (Inline (Span ''l'' [''foo''] Map.empty [Str ''FOO'']))
       = Inr (''FOO'', ''https://hello.co/FOO'')"
    using wiki_link_construction [where links = ?foo and t = "''foo''" and u = "''https://hello.co''"
        and sf = flatten and el = "Inline (Span ''l'' [''foo''] Map.empty [Str ''FOO''])",
        THEN conjunct2, THEN conjunct2, THEN conjunct2, THEN conjunct1, THEN mp, OF h1]
    by simp
  have w2: "get_link_text flatten LINKS ''github'' (Inline (Span ''l'' [''github''] Map.empty [Str ''a/b c'']))
       = Inr (''a/b c'', ''https://github.com/a/b c'')"
    using wiki_link_construction [where links = LINKS and t = "''github''" and u = "''https://github.com/''"
        and sf = flatten and el = "Inline (Span ''l'' [''github''] Map.empty [Str ''a/b c''])",
        THEN conjunct2, THEN conjunct2, THEN conjunct2, THEN conjunct1, THEN mp, OF LINKS_github]
    by simp
  have w3: "map_sum id snd (get_link_text flatten LINKS ''wiki''
         (Inline (Span ''l'' [''wiki''] Map.empty [Str ''a/b c''])))
       = Inr ''https://en.wikipedia.org/wiki/a%2Fb+c''"
    using wiki_link_construction [where links = LINKS and t = "''wiki''"
        and u = "''https://en.wikipedia.org/wiki''" and sf = flatten
        and el = "Inline (Span ''l'' [''wiki''] Map.empty [Str ''a/b c''])"
        and url_data = "[''url'' \<mapsto> PStr ''https://en.wikipedia.org/wiki'', ''encode'' \<mapsto> PBool True,
                         ''before'' \<mapsto> PStr [], ''after'' \<mapsto> PStr []]"
        and pre = "[]" and app = "[]", THEN conjunct2, THEN conjunct2, THEN conjunct2, THEN conjunct2, THEN conjunct1]
    by (simp add: LINKS_wiki quote_plus_def quote_char_def always_safe_def hex_digit_def)
  have w4: "map_sum id snd (get_link_text flatten LINKS ''pubmed''
         (Inline (Span ''l'' [''pubmed''] Map.empty [Str ''a/b c''])))
       = Inr ''https://pubmed.ncbi.nlm.nih.gov/a/b c''"
    using wiki_link_construction [where links = LINKS and t = "''pubmed''"
        and u = "''https://pubmed.ncbi.nlm.nih.gov/''" and sf = flatten
        and el = "Inline (Span ''l'' [''pubmed''] Map.empty [Str ''a/b c''])"
        and url_data = "[''url'' \<mapsto> PStr ''https://pubmed.ncbi.nlm.nih.gov/'', ''before'' \<mapsto> PStr ''pubmed:'']"
        and pre = "''pubmed:''" and app = "[]", THEN conjunct2, THEN conjunct2, THEN conjunct2, THEN conjunct2, THEN conjunct2, THEN conjunct1]
    by (simp add: LINKS_pubmed)
  have w5: "map_sum id snd (get_link_text flatten ?other ''other''
         (Inline (Span ''l'' [''other''] Map.empty [Str ''Some'', Space, Str ''text''])))
       = Inr ''HTTP://foo.com/Some text''"
    using wiki_link_construction [where links = ?other and t = "''other''"
        and u = "''HTTP://foo.com/''" and sf = flatten
        and el = "Inline (Span ''l'' [''other''] Map.empty [Str ''Some'', Space, Str ''text''])"
        and url_data = "[''url'' \<mapsto> PStr ''HTTP://foo.com/'', ''encode'' \<mapsto> PBool False]"
        and pre = "[]" and app = "[]", THEN conjunct2, THEN conjunct2, THEN conjunct2, THEN conjunct2, THEN conjunct2, THEN conjunct1]
    by simp
  have w6: "quote_plus ''a'' = ''a''"
    using wiki_link_construction [where c = "CHR ''a''", THEN conjunct2, THEN conjunct2, THEN conjunct2, THEN conjunct2, THEN conjunct2, THEN conjunct2, THEN conjunct2, THEN conjunct2, THEN conjunct1] by simp
  have w7: "quote_plus ''/'' = ''%2F''"
    using wiki_link_construction [where c = "CHR ''/''", THEN conjunct2, THEN conjunct2, THEN conjunct2, THEN conjunct2, THEN conjunct2, THEN conjunct2, THEN conjunct2, THEN conjunct2, THEN conjunct2, THEN conjunct1]
    by (auto simp: hex_value_def)
  show ?thesis
    using h1 w1 LINKS_github w2 w3 w4 w5 w6 w7 by (intro conjI)
qed

text \<open>Bytes outside the safe set are written in hexadecimal.\<close>

lemma quote_plus_example: "quote_plus ''a/b c~d'' = ''a%2Fb+c~d''"
  by (simp add: quote_plus_def quote_char_def always_safe_def hex_digit_def)

text \<open>The text shown for a record.\<close>

lemma link_of_dict_wrapped:
  assumes "url_data ''url'' = Some (PStr u)"
    and "(case attributes ''before'' of
            Some v \<Rightarrow> PStr v
          | None \<Rightarrow> (case url_data ''before'' of Some v \<Rightarrow> v | None \<Rightarrow> PStr [])) = PStr pre"
    and "(case attributes ''after'' of
            Some v \<Rightarrow> PStr v
          | None \<Rightarrow> (case url_data ''after'' of Some v \<Rightarrow> v | None \<Rightarrow> PStr [])) = PStr app"
  shows "map_sum id fst (link_of_dict url_data attributes link_text)
     = Inr (pre @ (case attributes ''title'' of
                     Some ti \<Rightarrow> (if ti \<noteq> [] then ti else link_text)
                   | None \<Rightarrow> link_text) @ app)"
  using assms
  by (auto simp: link_of_dict_def attr_get_def dict_get_def str_of_def Let_def
      split: option.splits)

text \<open>
  Claim C4, as amended. For every span matched by the link rule whose entry is a
  record with a string \<open>url\<close>, the text shown is the title of the node when it has a
  non-empty one and the flattened text otherwise, with the resolved \<open>before\<close> in
  front and the resolved \<open>after\<close> behind; resolved means the attribute of the node
  when it is present (empty or not), else the entry of the record, else the empty
  string.
\<close>

theorem link_text_wrapped:
  assumes "links_load d g = Inr g'"
    and "link_type attributes classes = PStr t"
    and "links_LINKS g' t = Some (PDict url_data)"
    and "url_data ''url'' = Some (PStr u)"
    and "(case attributes ''before'' of
            Some v \<Rightarrow> PStr v
          | None \<Rightarrow> (case url_data ''before'' of Some v \<Rightarrow> v | None \<Rightarrow> PStr [])) = PStr pre"
    and "(case attributes ''after'' of
            Some v \<Rightarrow> PStr v
          | None \<Rightarrow> (case url_data ''after'' of Some v \<Rightarrow> v | None \<Rightarrow> PStr [])) = PStr app"
  shows "\<exists>url. links_action sf (Inline (Span IDNAME classes attributes content)) d g
     = Inr (RElem (Inline (Link
              [Str (pre @ (case attributes ''title'' of
                             Some ti \<Rightarrow> (if ti \<noteq> [] then ti else sf (Inline (Span IDNAME classes attributes content)))
                           | None \<Rightarrow> sf (Inline (Span IDNAME classes attributes content))) @ app)]
              url [] classes attributes)), g')"
proof -
  let ?el = "Inline (Span IDNAME classes attributes content)"
  have "map_sum id fst (link_of_dict url_data attributes (sf ?el))
     = Inr (pre @ (case attributes ''title'' of
                     Some ti \<Rightarrow> (if ti \<noteq> [] then ti else sf ?el)
                   | None \<Rightarrow> sf ?el) @ app)"
    using assms(4-6) by (rule link_of_dict_wrapped)
  then obtain url where "link_of_dict url_data attributes (sf ?el)
     = Inr (pre @ (case attributes ''title'' of
                     Some ti \<Rightarrow> (if ti \<noteq> [] then ti else sf ?el)
                   | None \<Rightarrow> sf ?el) @ app, url)"
    by (cases "link_of_dict url_data attributes (sf ?el)") auto
  then show ?thesis
    using assms(1-3) by (simp add: links_action_def get_link_text_def Let_def)
qed

theorem link_text_wrapped_witness:
  "links_load \<lparr>format = ''html'', metadata = Map.empty\<rparr> links_init
     = Inr \<lparr>links_LINKS = LINKS, links_META = Some (PDict Map.empty)\<rparr>
   \<and> link_type [''type'' \<mapsto> ''pubmed'', ''after'' \<mapsto> '' (ref)''] [] = PStr ''pubmed''
   \<and> (\<exists>url. links_action flatten
         (Inline (Span ''l'' [] [''type'' \<mapsto> ''pubmed'', ''after'' \<mapsto> '' (ref)''] [Str ''1233211'']))
         \<lparr>format = ''html'', metadata = Map.empty\<rparr> links_init
       = Inr (RElem (Inline (Link [Str ''pubmed:1233211 (ref)''] url [] []
                               [''type'' \<mapsto> ''pubmed'', ''after'' \<mapsto> '' (ref)''])),
              \<lparr>links_LINKS = LINKS, links_META = Some (PDict Map.empty)\<rparr>))"
  using link_text_wrapped [of "\<lparr>format = ''html'', metadata = Map.empty\<rparr>" links_init
      "\<lparr>links_LINKS = LINKS, links_META = Some (PDict Map.empty)\<rparr>"
      "[''type'' \<mapsto> ''pubmed'', ''after'' \<mapsto> '' (ref)'']" "[]" "''pubmed''"
      "[''url'' \<mapsto> PStr ''https://pubmed.ncbi.nlm.nih.gov/'', ''before'' \<mapsto> PStr ''pubmed:'']"
      "''https://pubmed.ncbi.nlm.nih.gov/''" "''pubmed:''" "'' (ref)''" flatten "[Str ''1233211'']"]
  by (simp add: links_load_plain link_type_def get_option_def LINKS_pubmed IDNAME_def)

text \<open>
  Claim C4 as stated takes the attribute only when it is non-empty, and wraps the text
  for a bare string too. An empty \<open>before\<close> attribute on a \<open>pubmed\<close> span removes
  the default \<open>pubmed:\<close>, where the resolver of the specification gives
  \<open>pubmed:1233211\<close>; and a \<open>before\<close> attribute on a \<open>github\<close> span, a bare string,
  is not put in front of the text, where the specification gives \<open>GH:panflute\<close>.
\<close>

theorem link_empty_before_overrides:
  "links_action flatten
       (Inline (Span ''l'' [''pubmed''] [''before'' \<mapsto> []] [Str ''1233211'']))
       \<lparr>format = ''html'', metadata = Map.empty\<rparr> links_init
     = Inr (RElem (Inline (Link [Str ''1233211''] ''https://pubmed.ncbi.nlm.nih.gov/1233211''
                             [] [''pubmed''] [''before'' \<mapsto> []])),
            \<lparr>links_LINKS = LINKS, links_META = Some (PDict Map.empty)\<rparr>)
   \<and> resolve [''before'' \<mapsto> []] ''before'' ''pubmed:'' @ ''1233211''
         @ resolve [''before'' \<mapsto> []] ''after'' [] = ''pubmed:1233211''
   \<and> links_action flatten
       (Inline (Span ''l'' [''github''] [''before'' \<mapsto> ''GH:''] [Str ''panflute'']))
       \<lparr>format = ''html'', metadata = Map.empty\<rparr> links_init
     = Inr (RElem (Inline (Link [Str ''panflute''] ''https://github.com/panflute''
                             [] [''github''] [''before'' \<mapsto> ''GH:''])),
            \<lparr>links_LINKS = LINKS, links_META = Some (PDict Map.empty)\<rparr>)
   \<and> resolve [''before'' \<mapsto> ''GH:''] ''before'' [] @ ''panflute''
         @ resolve [''before'' \<mapsto> ''GH:''] ''after'' [] = ''GH:panflute''"
  by (simp add: links_load_plain links_defs LINKS_pubmed LINKS_github resolve_def Let_def)

section \<open>The environment wrap\<close>











text \<open>
  The same footnote evaluated on the walk itself, without the definitions in the words
  of the specification.
\<close>

lemma env_wrap_footnote:
  "env_action
     (Block (Div [] [''ubuntu''] Map.empty
        [Para [Str ''a'', Note [Para [Str ''fn'']], Str ''b''], Para [Str ''q'']]))
     \<lparr>format = ''latex'', metadata = [''div-env'' \<mapsto> PDict [''ubuntu'' \<mapsto> PStr ''ubuntubox'']]\<rparr> None
   = Inr (RNone,
          Block (Div [] [''ubuntu''] Map.empty
            [Para [Str ''a'',
                   Note [Para [RawInline (backslash @ ''begin{ubuntubox}'') ''tex'', Str ''fn'']],
                   Str ''b''],
             Para [Str ''q''],
             Plain [RawInline (backslash @ ''end{ubuntubox}'') ''tex'']]),
          None)"
  by (simp add: env_action_def get_metadata_def visit_block_def visit_inline_def)

section \<open>The target format\<close>

text \<open>
  Claim C2. The claim says that both rules leave a triggering Div alone when the
  target format is neither beamer nor latex. With the format \<open>html\<close> the column
  split builds the columns and the environment wrap inserts its raw LaTeX markers.
\<close>

theorem rules_rewrite_on_html:
  "twocol_action
     (Block (Div [] [''twocol''] Map.empty [Para [Str ''A''], HorizontalRule, Para [Str ''C'']]))
     \<lparr>format = ''html'', metadata = Map.empty\<rparr>
   = Inr (RElem (Block (Div [] [''columns''] Map.empty
       [Div [] [''column''] Map.empty [Para [Str ''A'']],
        Div [] [''column''] Map.empty [Para [Str ''C'']]])))
   \<and> env_action
     (Block (Div [] [''note''] Map.empty [Para [Str ''x'']]))
     \<lparr>format = ''html'', metadata = [''div-env'' \<mapsto> PDict [''note'' \<mapsto> PStr ''admonitionnote'']]\<rparr> None
   = Inr (RNone,
          Block (Div [] [''note''] Map.empty
            [Para [RawInline (backslash @ ''begin{admonitionnote}'') ''tex'', Str ''x''],
             Plain [RawInline (backslash @ ''end{admonitionnote}'') ''tex'']]),
          None)"
  by (simp add: twocol_action_def DIVNAME_def ruler_positions_def process_attributes_def
      dict_merge_def env_action_def get_metadata_def visit_block_def visit_inline_def)

text \<open>Neither action depends on the format of the document.\<close>

lemma twocol_ignores_document: "twocol_action el d = twocol_action el d'"
  by (simp add: twocol_action_def)

lemma env_ignores_format: "env_action el (d\<lparr>format := f\<rparr>) h = env_action el d h"
proof -
  have "get_metadata (d\<lparr>format := f\<rparr>) = get_metadata d"
    by (simp add: fun_eq_iff get_metadata_def)
  then show ?thesis
    by (simp only: env_action_def)
qed

end
